theory Spec2Isabelle
  imports Complex_Main
begin

section \<open>The Python binding of cuTT: plan lifecycle around an opaque transpose engine\<close>

text \<open>
  This theory embeds \<^verbatim>\<open>src/python/cutt.cpp\<close>: the result mapper
  \<^verbatim>\<open>cuttErrorString\<close> and the class \<^verbatim>\<open>cuTT\<close> with its two constructors, its
  destructor and \<^verbatim>\<open>execute\<close>. The native engine (\<^verbatim>\<open>cuttInitialize\<close>,
  \<^verbatim>\<open>cuttPlan\<close>, \<^verbatim>\<open>cuttPlanMeasure\<close>, \<^verbatim>\<open>cuttExecute\<close>, \<^verbatim>\<open>cuttDestroy\<close>) and the
  Python runtime are external to that file; both are parameters of the model.
\<close>

subsection \<open>Result codes and the result mapper\<close>

text \<open>
  Modelled from the spec: the enumeration \<^verbatim>\<open>cuttResult\<close> is declared in \<^verbatim>\<open>cutt.h\<close>,
  which is not among the sources. The spec gives its enumerators: Success, InvalidPlan,
  InvalidParameter, InvalidDevice, InternalError, UndefinedError. A C enumeration can also
  hold a value that is none of its enumerators; \<open>CUTT_UNLISTED n\<close> stands for such a value.
\<close>

datatype cuttResult =
    CUTT_SUCCESS
  | CUTT_INVALID_PLAN
  | CUTT_INVALID_PARAMETER
  | CUTT_INVALID_DEVICE
  | CUTT_INTERNAL_ERROR
  | CUTT_UNDEFINED_ERROR
  | CUTT_UNLISTED nat

text \<open>
  \<^verbatim>\<open>cuttErrorString\<close>: the \<^verbatim>\<open>switch\<close> has one case per enumerator; every other
  value falls through to the final \<^verbatim>\<open>return cuttUnknownError\<close>.
\<close>

fun cuttErrorString :: "cuttResult \<Rightarrow> string" where
  "cuttErrorString CUTT_SUCCESS = ''Success''"
| "cuttErrorString CUTT_INVALID_PLAN = ''Invalid plan handle''"
| "cuttErrorString CUTT_INVALID_PARAMETER = ''Invalid input parameter''"
| "cuttErrorString CUTT_INVALID_DEVICE =
     ''Execution tried on device different than where plan was created''"
| "cuttErrorString CUTT_INTERNAL_ERROR = ''Internal error''"
| "cuttErrorString CUTT_UNDEFINED_ERROR = ''Undefined error''"
| "cuttErrorString (CUTT_UNLISTED n) = ''Unknown error''"

subsection \<open>The Python runtime, as far as the binding observes it\<close>

text \<open>
  The classes the binding tests its arguments against.
\<close>

datatype pyclass = C_Stream | C_GPUArray

text \<open>
  The values of a C double: the finite ones, the two infinities and not-a-number. The
  binding does no arithmetic on a double; it passes it on.
\<close>

datatype double = Finite real | PlusInfinity | MinusInfinity | NaN

text \<open>
  Python objects. Python integers are unbounded. \<open>PyFloat v\<close> is a number object whose
  conversion to a C double gives \<open>v\<close>. \<open>PyStream a\<close> is an instance of the stream
  class; \<open>a\<close> is its attribute \<^verbatim>\<open>handle_int\<close>, \<open>None\<close> when the object has no
  such attribute. \<open>PyGPUArray d p s\<close> is an instance of the device array class with
  attributes \<^verbatim>\<open>dtype\<close> (the dtype object of identity \<open>d\<close>), \<^verbatim>\<open>ptr = p\<close> and
  \<^verbatim>\<open>itemsize = s\<close>. \<open>PyEmptyGPUArray d s\<close> is an instance of the device array class
  whose attribute \<^verbatim>\<open>ptr\<close> cannot be read (an array without device storage).
  \<open>PyDtype d\<close> is the dtype object of identity \<open>d\<close>. \<open>PyModule\<close> is a module object
  and \<open>PyClass c\<close> a class object. \<open>PyOther n\<close> is any other object (it has none of
  the attributes above).
\<close>

datatype pyobj =
    PyNone
  | PyFloat double
  | PyStream "int option"
  | PyGPUArray nat int int
  | PyEmptyGPUArray nat int
  | PyDtype nat
  | PyModule
  | PyClass pyclass
  | PyOther nat

text \<open>
  What the interpreter answers to the lookups the binding makes:
  \<^verbatim>\<open>py::module::import("pycuda")\<close>, \<^verbatim>\<open>pycuda.driver.Stream\<close>, \<^verbatim>\<open>pycuda.gpuarray\<close>,
  \<^verbatim>\<open>pycuda.gpuarray.GPUArray\<close> (\<open>None\<close>: the attribute does not exist), and
  \<^verbatim>\<open>py::str\<close> of an object.
\<close>

record pyenv =
  pycuda_importable :: bool
  pycuda_driver_Stream :: "pyobj option"
  pycuda_gpuarray :: "pyobj option"
  pycuda_gpuarray_GPUArray :: "pyobj option"
  py_str :: "pyobj \<Rightarrow> string"

text \<open>
  Python exceptions raised through pybind11 (\<^verbatim>\<open>error_already_set\<close>), pybind11's
  own \<^verbatim>\<open>cast_error\<close>, and the \<^verbatim>\<open>std::invalid_argument\<close> the binding throws itself.
\<close>

datatype pyexc = ImportError | AttributeError | TypeError

datatype exn =
    error_already_set pyexc
  | cast_error
  | invalid_argument string

definition import_pycuda :: "pyenv \<Rightarrow> exn + unit" where
  "import_pycuda env =
     (if pycuda_importable env then Inr () else Inl (error_already_set ImportError))"

definition getattr :: "pyobj option \<Rightarrow> exn + pyobj" where
  "getattr a = (case a of None \<Rightarrow> Inl (error_already_set AttributeError) | Some v \<Rightarrow> Inr v)"

text \<open>\<^verbatim>\<open>pycuda.attr("driver").attr("Stream")\<close>\<close>

definition attr_driver_Stream :: "pyenv \<Rightarrow> exn + pyobj" where
  "attr_driver_Stream env = getattr (pycuda_driver_Stream env)"

text \<open>\<^verbatim>\<open>pycuda.attr("gpuarray")\<close>\<close>

definition attr_gpuarray :: "pyenv \<Rightarrow> exn + pyobj" where
  "attr_gpuarray env = getattr (pycuda_gpuarray env)"

text \<open>\<^verbatim>\<open>pycuda.attr("gpuarray").attr("GPUArray")\<close>\<close>

definition attr_gpuarray_GPUArray :: "pyenv \<Rightarrow> exn + pyobj" where
  "attr_gpuarray_GPUArray env =
     (case attr_gpuarray env of
        Inl e \<Rightarrow> Inl e
      | Inr m \<Rightarrow> getattr (pycuda_gpuarray_GPUArray env))"

text \<open>
  \<^verbatim>\<open>py::isinstance(obj, cls)\<close> is \<^verbatim>\<open>PyObject_IsInstance\<close>: when \<open>cls\<close> is a class it
  answers whether \<open>obj\<close> is an instance of it, and when \<open>cls\<close> is not a class (a
  module, say) Python raises \<^verbatim>\<open>TypeError\<close>.
\<close>

fun class_of :: "pyobj \<Rightarrow> pyclass option" where
  "class_of (PyStream a) = Some C_Stream"
| "class_of (PyGPUArray d p s) = Some C_GPUArray"
| "class_of (PyEmptyGPUArray d s) = Some C_GPUArray"
| "class_of _ = None"

fun py_isinstance :: "pyobj \<Rightarrow> pyobj \<Rightarrow> exn + bool" where
  "py_isinstance obj (PyClass c) = Inr (class_of obj = Some c)"
| "py_isinstance obj _ = Inl (error_already_set TypeError)"

text \<open>
  Attribute reads followed by a cast, as the binding writes them. A read of an attribute
  the object does not have raises \<^verbatim>\<open>AttributeError\<close>. A cast of a Python integer to a
  C integer type throws \<^verbatim>\<open>cast_error\<close> when the value does not fit the type; the
  types are those of a 64-bit platform.
\<close>

definition fits_intptr_t :: "int \<Rightarrow> bool" where
  "fits_intptr_t v \<longleftrightarrow> - (2 ^ 63) \<le> v \<and> v < 2 ^ 63"

definition fits_size_t :: "int \<Rightarrow> bool" where
  "fits_size_t v \<longleftrightarrow> 0 \<le> v \<and> v < 2 ^ 64"

text \<open>\<^verbatim>\<open>v.cast<intptr_t>()\<close> and \<^verbatim>\<open>v.cast<size_t>()\<close> of a Python integer \<open>v\<close>\<close>

definition cast_intptr_t :: "int \<Rightarrow> exn + int" where
  "cast_intptr_t v = (if fits_intptr_t v then Inr v else Inl cast_error)"

definition cast_size_t :: "int \<Rightarrow> exn + nat" where
  "cast_size_t v = (if fits_size_t v then Inr (nat v) else Inl cast_error)"

text \<open>\<^verbatim>\<open>obj.attr("handle_int").cast<intptr_t>()\<close>\<close>

fun attr_handle_int :: "pyobj \<Rightarrow> exn + int" where
  "attr_handle_int (PyStream (Some h)) = cast_intptr_t h"
| "attr_handle_int _ = Inl (error_already_set AttributeError)"

text \<open>\<^verbatim>\<open>obj.attr("dtype").cast<pybind11::dtype>()\<close>: the identity of the dtype object.\<close>

fun attr_dtype :: "pyobj \<Rightarrow> exn + nat" where
  "attr_dtype (PyGPUArray d p s) = Inr d"
| "attr_dtype (PyEmptyGPUArray d s) = Inr d"
| "attr_dtype _ = Inl (error_already_set AttributeError)"

text \<open>\<^verbatim>\<open>obj.attr("ptr").cast<intptr_t>()\<close>\<close>

fun attr_ptr :: "pyobj \<Rightarrow> exn + int" where
  "attr_ptr (PyGPUArray d p s) = cast_intptr_t p"
| "attr_ptr _ = Inl (error_already_set AttributeError)"

text \<open>\<^verbatim>\<open>obj.attr("itemsize").cast<size_t>()\<close>\<close>

fun attr_itemsize :: "pyobj \<Rightarrow> exn + nat" where
  "attr_itemsize (PyGPUArray d p s) = cast_size_t s"
| "attr_itemsize (PyEmptyGPUArray d s) = cast_size_t s"
| "attr_itemsize _ = Inl (error_already_set AttributeError)"

text \<open>\<^verbatim>\<open>obj.cast<double>()\<close>\<close>

fun cast_double :: "pyobj \<Rightarrow> exn + double" where
  "cast_double (PyFloat v) = Inr v"
| "cast_double _ = Inl cast_error"

subsection \<open>The engine and the process state\<close>

text \<open>
  The calls the binding makes into the native engine, with the arguments it passes.
  \<open>cuttPlan rank dim permutation sizeofType stream\<close>;
  \<open>cuttPlanMeasure rank dim permutation sizeofType stream idata odata alpha beta\<close>
  (the last four are addresses, \<open>0\<close> for \<^verbatim>\<open>NULL\<close>);
  \<open>cuttExecute plan idata odata alpha beta\<close>, where a coefficient is \<open>None\<close> for a
  \<^verbatim>\<open>NULL\<close> pointer and \<open>Some v\<close> for a pointer to the double \<open>v\<close>;
  \<open>cuttDestroy plan\<close>.
\<close>

datatype engine_call =
    cuttInitialize
  | cuttPlan int "int list" "int list" nat int
  | cuttPlanMeasure int "int list" "int list" nat int int int int int
  | cuttExecute nat int int "double option" "double option"
  | cuttDestroy nat

text \<open>
  The engine is a parameter: it answers a call from the calls made before it and the
  call itself. A planning call answers with the handle it writes through its first
  argument (\<open>None\<close> when it leaves the caller's variable untouched) and a result code.
\<close>

record engine =
  plan_result :: "engine_call list \<Rightarrow> engine_call \<Rightarrow> nat option \<times> cuttResult"
  execute_result :: "engine_call list \<Rightarrow> engine_call \<Rightarrow> cuttResult"

text \<open>
  The process state: the \<^verbatim>\<open>std::once_flag cuttInitialized\<close> and the engine calls made
  so far, oldest first.
\<close>

record world =
  cuttInitialized :: bool
  calls :: "engine_call list"

definition world0 :: world where
  "world0 = \<lparr>cuttInitialized = False, calls = []\<rparr>"

text \<open>\<^verbatim>\<open>std::call_once(cuttInitialized, [](){ cuttInitialize(); })\<close>\<close>

definition call_once_cuttInitialize :: "world \<Rightarrow> world" where
  "call_once_cuttInitialize w =
     (if cuttInitialized w then w
      else w\<lparr>cuttInitialized := True, calls := calls w @ [cuttInitialize]\<rparr>)"

subsection \<open>The class cuTT\<close>

text \<open>
  The members of the class. \<open>plan\<close> and \<open>initStatus\<close> have no initialiser: until they
  are assigned they hold whatever the object's storage held. The rank, the dimensions, the
  permutation and the stream handle are machine integers on which the binding does no
  arithmetic: it stores them and passes them on.
\<close>

record cuTT =
  plan :: nat
  initStatus :: cuttResult
  planInitialized :: bool
  rank :: int
  dim :: "int list"
  permutation :: "int list"
  stream :: int

text \<open>
  Both constructors set \<open>stream\<close> with the same statements: \<open>0\<close> for \<^verbatim>\<open>None\<close>,
  otherwise the argument must be an instance of \<open>pystream\<close> and its \<^verbatim>\<open>handle_int\<close>
  is taken.
\<close>

definition stream_of :: "pyenv \<Rightarrow> pyobj \<Rightarrow> pyobj \<Rightarrow> exn + int" where
  "stream_of env pystream stream' =
     (if stream' = PyNone then Inr 0
      else case py_isinstance stream' pystream of
             Inl e \<Rightarrow> Inl e
           | Inr False \<Rightarrow>
               Inl (invalid_argument
                 (''Stream argument must be a pycuda.driver.stream, got: '' @ py_str env stream'))
           | Inr True \<Rightarrow> attr_handle_int stream')"

text \<open>
  The constructor \<^verbatim>\<open>cuTT(rank_, dim_, permutation_, stream_)\<close>. \<open>plan0\<close> and
  \<open>status0\<close> are the contents of the storage of the two members without initialiser.
  An exception leaves no object.
\<close>

definition cuTT_ctor ::
  "pyenv \<Rightarrow> int \<Rightarrow> int list \<Rightarrow> int list \<Rightarrow> pyobj \<Rightarrow> nat \<Rightarrow> cuttResult \<Rightarrow> world
   \<Rightarrow> (exn + cuTT) \<times> world" where
  "cuTT_ctor env rank' dim' permutation' stream' plan0 status0 w =
     (let w1 = call_once_cuttInitialize w in
      case import_pycuda env of
        Inl e \<Rightarrow> (Inl e, w1)
      | Inr u \<Rightarrow>
      (case attr_driver_Stream env of
        Inl e \<Rightarrow> (Inl e, w1)
      | Inr pystream \<Rightarrow>
      (case stream_of env pystream stream' of
        Inl e \<Rightarrow> (Inl e, w1)
      | Inr s \<Rightarrow>
          (Inr \<lparr>plan = plan0, initStatus = status0, planInitialized = False,
                rank = rank', dim = dim', permutation = permutation', stream = s\<rparr>,
           w1))))"

text \<open>
  The check that an argument is a device array, with the message of its failure
  (\<open>which\<close> is \<open>''Input''\<close> or \<open>''Output''\<close>).
\<close>

definition check_gpuarray :: "pyenv \<Rightarrow> string \<Rightarrow> pyobj \<Rightarrow> pyobj \<Rightarrow> exn + unit" where
  "check_gpuarray env which pygpuarray data =
     (case py_isinstance data pygpuarray of
        Inl e \<Rightarrow> Inl e
      | Inr False \<Rightarrow>
          Inl (invalid_argument
            (which @ '' array must be a pycuda.gpuarray, got: '' @ py_str env data))
      | Inr True \<Rightarrow> Inr ())"

text \<open>
  The constructor \<^verbatim>\<open>cuTT(rank_, dim_, permutation_, stream_, idata, odata, alpha, beta)\<close>.
  It tests the two arrays against \<^verbatim>\<open>pycuda.attr("gpuarray")\<close>.
\<close>

definition cuTT_ctor_measured ::
  "pyenv \<Rightarrow> engine \<Rightarrow> int \<Rightarrow> int list \<Rightarrow> int list \<Rightarrow> pyobj \<Rightarrow> pyobj \<Rightarrow> pyobj \<Rightarrow> int \<Rightarrow> int
   \<Rightarrow> nat \<Rightarrow> cuttResult \<Rightarrow> world \<Rightarrow> (exn + cuTT) \<times> world" where
  "cuTT_ctor_measured env eng rank' dim' permutation' stream' idata odata alpha beta
       plan0 status0 w =
     (let w1 = call_once_cuttInitialize w in
      case import_pycuda env of
        Inl e \<Rightarrow> (Inl e, w1)
      | Inr u \<Rightarrow>
      (case attr_gpuarray env of
        Inl e \<Rightarrow> (Inl e, w1)
      | Inr pygpuarray \<Rightarrow>
      (case attr_driver_Stream env of
        Inl e \<Rightarrow> (Inl e, w1)
      | Inr pystream \<Rightarrow>
      (case check_gpuarray env ''Input'' pygpuarray idata of
        Inl e \<Rightarrow> (Inl e, w1)
      | Inr u \<Rightarrow>
      (case check_gpuarray env ''Output'' pygpuarray odata of
        Inl e \<Rightarrow> (Inl e, w1)
      | Inr u \<Rightarrow>
      (case stream_of env pystream stream' of
        Inl e \<Rightarrow> (Inl e, w1)
      | Inr s \<Rightarrow>
      (case attr_dtype idata of
        Inl e \<Rightarrow> (Inl e, w1)
      | Inr idtype \<Rightarrow>
      (case attr_dtype odata of
        Inl e \<Rightarrow> (Inl e, w1)
      | Inr odtype \<Rightarrow>
      if idtype \<noteq> odtype
      then (Inl (invalid_argument ''Input and output array must have the same type''), w1)
      else
      (case attr_ptr idata of
        Inl e \<Rightarrow> (Inl e, w1)
      | Inr igpuarray \<Rightarrow>
      (case attr_ptr odata of
        Inl e \<Rightarrow> (Inl e, w1)
      | Inr ogpuarray \<Rightarrow>
      (case attr_itemsize idata of
        Inl e \<Rightarrow> (Inl e, w1)
      | Inr sizeofType \<Rightarrow>
          (let c = cuttPlanMeasure rank' dim' permutation' sizeofType s
                     igpuarray ogpuarray alpha beta;
               (h, st) = plan_result eng (calls w1) c
           in (Inr \<lparr>plan = (case h of None \<Rightarrow> plan0 | Some v \<Rightarrow> v), initStatus = st,
                     planInitialized = True, rank = rank', dim = dim',
                     permutation = permutation', stream = s\<rparr>,
               w1\<lparr>calls := calls w1 @ [c]\<rparr>)))))))))))))"

text \<open>The destructor: \<^verbatim>\<open>cuttDestroy(plan)\<close>, whatever the state of the object.\<close>

definition cuTT_dtor :: "cuTT \<Rightarrow> world \<Rightarrow> world" where
  "cuTT_dtor self w = w\<lparr>calls := calls w @ [cuttDestroy (plan self)]\<rparr>"

text \<open>
  The statements of \<^verbatim>\<open>execute\<close> from \<^verbatim>\<open>if (!planInitialized)\<close> on, given the two
  addresses and the element size read from the arrays: the deferred planning, the test
  of \<open>initStatus\<close>, the casts of the coefficients, the engine's execute and the test of
  its result.
\<close>

definition coefficient :: "pyobj \<Rightarrow> exn + double option" where
  "coefficient py =
     (if py = PyNone then Inr None
      else case cast_double py of Inl e \<Rightarrow> Inl e | Inr v \<Rightarrow> Inr (Some v))"

definition resolve :: "engine \<Rightarrow> cuTT \<Rightarrow> nat \<Rightarrow> world \<Rightarrow> cuTT \<times> world" where
  "resolve eng self sizeofType w =
     (if \<not> planInitialized self
      then
        (let c = cuttPlan (rank self) (dim self) (permutation self) sizeofType (stream self);
             (h, st) = plan_result eng (calls w) c
         in (self\<lparr>plan := (case h of None \<Rightarrow> plan self | Some v \<Rightarrow> v), initStatus := st,
                   planInitialized := True\<rparr>,
             w\<lparr>calls := calls w @ [c]\<rparr>))
      else (self, w))"

definition run_plan ::
  "engine \<Rightarrow> cuTT \<Rightarrow> int \<Rightarrow> int \<Rightarrow> pyobj \<Rightarrow> pyobj \<Rightarrow> world \<Rightarrow> (exn + unit) \<times> cuTT \<times> world" where
  "run_plan eng self igpuarray ogpuarray pyalpha pybeta w =
     (if initStatus self \<noteq> CUTT_SUCCESS
      then (Inl (invalid_argument (''cuTT error: '' @ cuttErrorString (initStatus self))),
            self, w)
      else
      (case coefficient pyalpha of
        Inl e \<Rightarrow> (Inl e, self, w)
      | Inr alpha \<Rightarrow>
      (case coefficient pybeta of
        Inl e \<Rightarrow> (Inl e, self, w)
      | Inr beta \<Rightarrow>
          (let c = cuttExecute (plan self) igpuarray ogpuarray alpha beta;
               status = execute_result eng (calls w) c;
               w' = w\<lparr>calls := calls w @ [c]\<rparr>
           in if status \<noteq> CUTT_SUCCESS
              then (Inl (invalid_argument (''cuTT error: '' @ cuttErrorString status)),
                    self, w')
              else (Inr (), self, w')))))"

text \<open>
  \<^verbatim>\<open>execute(idata, odata, pyalpha, pybeta)\<close>. It tests the two arrays against
  \<^verbatim>\<open>pycuda.attr("gpuarray").attr("GPUArray")\<close>.
\<close>

definition execute ::
  "pyenv \<Rightarrow> engine \<Rightarrow> cuTT \<Rightarrow> pyobj \<Rightarrow> pyobj \<Rightarrow> pyobj \<Rightarrow> pyobj \<Rightarrow> world
   \<Rightarrow> (exn + unit) \<times> cuTT \<times> world" where
  "execute env eng self idata odata pyalpha pybeta w =
     (case import_pycuda env of
        Inl e \<Rightarrow> (Inl e, self, w)
      | Inr u \<Rightarrow>
      (case attr_gpuarray_GPUArray env of
        Inl e \<Rightarrow> (Inl e, self, w)
      | Inr pygpuarray \<Rightarrow>
      (case attr_driver_Stream env of
        Inl e \<Rightarrow> (Inl e, self, w)
      | Inr pystream \<Rightarrow>
      (case check_gpuarray env ''Input'' pygpuarray idata of
        Inl e \<Rightarrow> (Inl e, self, w)
      | Inr u \<Rightarrow>
      (case check_gpuarray env ''Output'' pygpuarray odata of
        Inl e \<Rightarrow> (Inl e, self, w)
      | Inr u \<Rightarrow>
      (case attr_dtype idata of
        Inl e \<Rightarrow> (Inl e, self, w)
      | Inr idtype \<Rightarrow>
      (case attr_dtype odata of
        Inl e \<Rightarrow> (Inl e, self, w)
      | Inr odtype \<Rightarrow>
      if idtype \<noteq> odtype
      then (Inl (invalid_argument
                  (''Input and output array must have the same type, got: ''
                   @ py_str env (PyDtype idtype) @ '' and '' @ py_str env (PyDtype odtype))),
            self, w)
      else
      (case attr_ptr idata of
        Inl e \<Rightarrow> (Inl e, self, w)
      | Inr igpuarray \<Rightarrow>
      (case attr_ptr odata of
        Inl e \<Rightarrow> (Inl e, self, w)
      | Inr ogpuarray \<Rightarrow>
      (case attr_itemsize idata of
        Inl e \<Rightarrow> (Inl e, self, w)
      | Inr sizeofType \<Rightarrow>
          (let (self1, w1) = resolve eng self sizeofType w
           in run_plan eng self1 igpuarray ogpuarray pyalpha pybeta w1)))))))))))"

subsection \<open>Clients of the binding\<close>

text \<open>
  A run of \<^verbatim>\<open>execute\<close> calls on one object, each with its four arguments: the results
  in order, and the object and the process state after the last call.
\<close>

type_synonym execute_args = "pyobj \<times> pyobj \<times> pyobj \<times> pyobj"

fun execute_all ::
  "pyenv \<Rightarrow> engine \<Rightarrow> cuTT \<Rightarrow> execute_args list \<Rightarrow> world
   \<Rightarrow> (exn + unit) list \<times> cuTT \<times> world" where
  "execute_all env eng self [] w = ([], self, w)"
| "execute_all env eng self ((idata, odata, pyalpha, pybeta) # rest) w =
     (case execute env eng self idata odata pyalpha pybeta w of
        (r, self1, w1) \<Rightarrow>
          (case execute_all env eng self1 rest w1 of
             (rs, self2, w2) \<Rightarrow> (r # rs, self2, w2)))"

text \<open>
  A client program is a sequence of operations on the objects it has created, numbered
  in the order of their creation: a construction by either constructor (with the
  contents of the new object's storage), a call of \<^verbatim>\<open>execute\<close> on a live object, the
  destruction of a live object. A constructor that throws leaves no object; an operation
  on an object that does not exist or is already destroyed is not a run of the program
  and is skipped.
\<close>

datatype client_op =
    New int "int list" "int list" pyobj nat cuttResult
  | NewMeasured int "int list" "int list" pyobj pyobj pyobj int int nat cuttResult
  | Call nat pyobj pyobj pyobj pyobj
  | Delete nat

fun is_construction :: "client_op \<Rightarrow> bool" where
  "is_construction (New r d p s h0 s0) = True"
| "is_construction (NewMeasured r d p s i o' a b h0 s0) = True"
| "is_construction _ = False"

fun client_step ::
  "pyenv \<Rightarrow> engine \<Rightarrow> world \<times> cuTT option list \<Rightarrow> client_op \<Rightarrow> world \<times> cuTT option list" where
  "client_step env eng (w, objs) (New r d p s h0 s0) =
     (case cuTT_ctor env r d p s h0 s0 w of
        (Inl e, w1) \<Rightarrow> (w1, objs)
      | (Inr self, w1) \<Rightarrow> (w1, objs @ [Some self]))"
| "client_step env eng (w, objs) (NewMeasured r d p s idata odata a b h0 s0) =
     (case cuTT_ctor_measured env eng r d p s idata odata a b h0 s0 w of
        (Inl e, w1) \<Rightarrow> (w1, objs)
      | (Inr self, w1) \<Rightarrow> (w1, objs @ [Some self]))"
| "client_step env eng (w, objs) (Call i idata odata pyalpha pybeta) =
     (if i < length objs
      then (case objs ! i of
              None \<Rightarrow> (w, objs)
            | Some self \<Rightarrow>
                (case execute env eng self idata odata pyalpha pybeta w of
                   (r, self1, w1) \<Rightarrow> (w1, objs[i := Some self1])))
      else (w, objs))"
| "client_step env eng (w, objs) (Delete i) =
     (if i < length objs
      then (case objs ! i of
              None \<Rightarrow> (w, objs)
            | Some self \<Rightarrow> (cuTT_dtor self w, objs[i := None]))
      else (w, objs))"

definition client_run ::
  "pyenv \<Rightarrow> engine \<Rightarrow> client_op list \<Rightarrow> world \<times> cuTT option list" where
  "client_run env eng ops = foldl (client_step env eng) (world0, []) ops"

subsection \<open>Concrete runtimes and engines\<close>

text \<open>
  The runtime with pycuda as it is distributed and loaded: \<^verbatim>\<open>pycuda.gpuarray\<close> is a
  module, \<^verbatim>\<open>pycuda.gpuarray.GPUArray\<close> and \<^verbatim>\<open>pycuda.driver.Stream\<close> are classes.
\<close>

fun show_obj :: "pyobj \<Rightarrow> string" where
  "show_obj PyNone = ''None''"
| "show_obj (PyDtype d) =
     (if d = 7 then ''float32'' else if d = 9 then ''float64'' else ''dtype'')"
| "show_obj obj = ''<object>''"

definition pycuda_env :: pyenv where
  "pycuda_env =
     \<lparr>pycuda_importable = True,
      pycuda_driver_Stream = Some (PyClass C_Stream),
      pycuda_gpuarray = Some PyModule,
      pycuda_gpuarray_GPUArray = Some (PyClass C_GPUArray),
      py_str = show_obj\<rparr>"

text \<open>
  A runtime in which the name \<^verbatim>\<open>pycuda.gpuarray\<close> is bound to the device array class
  itself, the only kind of runtime in which the tests of the second constructor can
  succeed.
\<close>

definition rebound_env :: pyenv where
  "rebound_env =
     \<lparr>pycuda_importable = True,
      pycuda_driver_Stream = Some (PyClass C_Stream),
      pycuda_gpuarray = Some (PyClass C_GPUArray),
      pycuda_gpuarray_GPUArray = Some (PyClass C_GPUArray),
      py_str = show_obj\<rparr>"

text \<open>An engine whose calls all succeed; planning yields the handle 1.\<close>

definition ok_engine :: engine where
  "ok_engine =
     \<lparr>plan_result = (\<lambda>past c. (Some 1, CUTT_SUCCESS)),
      execute_result = (\<lambda>past c. CUTT_SUCCESS)\<rparr>"

text \<open>An engine that rejects every planning call and writes no handle.\<close>

definition no_plan_engine :: engine where
  "no_plan_engine =
     \<lparr>plan_result = (\<lambda>past c. (None, CUTT_INVALID_PARAMETER)),
      execute_result = (\<lambda>past c. CUTT_SUCCESS)\<rparr>"

text \<open>An engine that plans, and then refuses to execute on the current device.\<close>

definition wrong_device_engine :: engine where
  "wrong_device_engine =
     \<lparr>plan_result = (\<lambda>past c. (Some 1, CUTT_SUCCESS)),
      execute_result = (\<lambda>past c. CUTT_INVALID_DEVICE)\<rparr>"

text \<open>The process state after the first construction.\<close>

definition world1 :: world where
  "world1 = \<lparr>cuttInitialized = True, calls = [cuttInitialize]\<rparr>"

text \<open>An object of the class in a given state of resolution.\<close>

definition a_plan :: "bool \<Rightarrow> cuttResult \<Rightarrow> cuTT" where
  "a_plan resolved st =
     \<lparr>plan = 1, initStatus = st, planInitialized = resolved,
      rank = 3, dim = [4, 6, 8], permutation = [2, 0, 1], stream = 0\<rparr>"

text \<open>
  An object as the first constructor leaves it, its two members without initialiser
  holding leftovers of the storage.
\<close>

definition fresh_plan :: cuTT where
  "fresh_plan =
     \<lparr>plan = 99, initStatus = CUTT_UNDEFINED_ERROR, planInitialized = False,
      rank = 3, dim = [4, 6, 8], permutation = [2, 0, 1], stream = 0\<rparr>"

text \<open>A client program: two constructions, a call, a third construction, a destruction.\<close>

definition demo_ops :: "client_op list" where
  "demo_ops =
     [New 3 [4, 6, 8] [2, 0, 1] PyNone 0 CUTT_SUCCESS,
      NewMeasured 3 [4, 6, 8] [2, 0, 1] PyNone (PyGPUArray 7 100 4) (PyGPUArray 7 200 4) 0 0
        0 CUTT_SUCCESS,
      Call 0 (PyGPUArray 7 100 4) (PyGPUArray 7 200 4) PyNone PyNone,
      New 2 [4, 6] [1, 0] PyNone 5 CUTT_SUCCESS,
      Delete 0]"

subsection \<open>Vocabulary of the properties\<close>

text \<open>
  A runtime in which the lookups of \<^verbatim>\<open>execute\<close> succeed and
  \<^verbatim>\<open>pycuda.gpuarray.GPUArray\<close> is the device array class.
\<close>

definition execute_ready :: "pyenv \<Rightarrow> bool" where
  "execute_ready env \<longleftrightarrow>
     pycuda_importable env \<and> pycuda_gpuarray env \<noteq> None
     \<and> pycuda_gpuarray_GPUArray env = Some (PyClass C_GPUArray)
     \<and> pycuda_driver_Stream env \<noteq> None"

text \<open>
  A valid buffer pair: two device arrays with the same dtype object, whose addresses
  and whose element size (that of the input array) can be read as \<^verbatim>\<open>execute\<close> reads
  them.
\<close>

definition valid_buffer_pair :: "pyobj \<Rightarrow> pyobj \<Rightarrow> bool" where
  "valid_buffer_pair idata odata \<longleftrightarrow>
     class_of idata = Some C_GPUArray \<and> class_of odata = Some C_GPUArray
     \<and> (case attr_dtype idata of Inl e \<Rightarrow> False | Inr d \<Rightarrow> attr_dtype odata = Inr d)
     \<and> (case attr_ptr idata of Inl e \<Rightarrow> False | Inr p \<Rightarrow> True)
     \<and> (case attr_ptr odata of Inl e \<Rightarrow> False | Inr p \<Rightarrow> True)
     \<and> (case attr_itemsize idata of Inl e \<Rightarrow> False | Inr sz \<Rightarrow> True)"

text \<open>The planning calls among the engine calls.\<close>

fun is_planning :: "engine_call \<Rightarrow> bool" where
  "is_planning (cuttPlan r d p s st) = True"
| "is_planning (cuttPlanMeasure r d p s st i o' a b) = True"
| "is_planning _ = False"

text \<open>How a caller passes an optional coefficient: \<^verbatim>\<open>None\<close>, or a number.\<close>

fun py_coefficient :: "double option \<Rightarrow> pyobj" where
  "py_coefficient None = PyNone"
| "py_coefficient (Some v) = PyFloat v"

text \<open>
  The outcome of a call for a result code of the engine: the error
  \<^verbatim>\<open>"cuTT error: " + cuttErrorString(status)\<close> unless the code is \<^verbatim>\<open>CUTT_SUCCESS\<close>.
\<close>

definition status_outcome :: "cuttResult \<Rightarrow> exn + unit" where
  "status_outcome st =
     (if st \<noteq> CUTT_SUCCESS
      then Inl (invalid_argument (''cuTT error: '' @ cuttErrorString st))
      else Inr ())"

section \<open>Properties\<close>

subsection \<open>How a call of execute proceeds\<close>

lemma check_gpuarray_Inr:
  "check_gpuarray env which cls data = Inr u \<Longrightarrow> \<exists>c. cls = PyClass c \<and> class_of data = Some c"
  by (cases cls) (auto simp: check_gpuarray_def split: if_splits bool.splits)

lemma check_gpuarray_class:
  "class_of data = Some c \<Longrightarrow> check_gpuarray env which (PyClass c) data = Inr ()"
  by (simp add: check_gpuarray_def)

lemma attr_dtype_class: "attr_dtype x = Inr d \<Longrightarrow> class_of x = Some C_GPUArray"
  by (cases x) auto

lemma valid_buffer_pairD:
  assumes "valid_buffer_pair idata odata"
  obtains d p p' s where
    "class_of idata = Some C_GPUArray" "class_of odata = Some C_GPUArray"
    "attr_dtype idata = Inr d" "attr_dtype odata = Inr d"
    "attr_ptr idata = Inr p" "attr_ptr odata = Inr p'" "attr_itemsize idata = Inr s"
  using assms by (auto simp: valid_buffer_pair_def split: sum.splits)

lemma valid_buffer_pairI:
  assumes "attr_dtype idata = Inr d" "attr_dtype odata = Inr d"
    "attr_ptr idata = Inr p" "attr_ptr odata = Inr p'" "attr_itemsize idata = Inr s"
  shows "valid_buffer_pair idata odata"
  using assms attr_dtype_class[of idata d] attr_dtype_class[of odata d]
  by (simp add: valid_buffer_pair_def)

lemma execute_ready_lookups:
  assumes "execute_ready env"
  shows "import_pycuda env = Inr ()"
    and "attr_gpuarray_GPUArray env = Inr (PyClass C_GPUArray)"
    and "\<exists>st. attr_driver_Stream env = Inr st"
  using assms
  by (auto simp: execute_ready_def import_pycuda_def attr_gpuarray_GPUArray_def
      attr_gpuarray_def getattr_def attr_driver_Stream_def split: option.splits)

lemma execute_ready_valid:
  assumes "execute_ready env" and "valid_buffer_pair idata odata"
    and "attr_ptr idata = Inr p" and "attr_ptr odata = Inr p'"
    and "attr_itemsize idata = Inr s"
  shows "execute env eng self idata odata pa pb w =
     (case resolve eng self s w of (self1, w1) \<Rightarrow> run_plan eng self1 p p' pa pb w1)"
proof -
  from assms(2) obtain d where
    c: "class_of idata = Some C_GPUArray" "class_of odata = Some C_GPUArray" and
    d: "attr_dtype idata = Inr d" "attr_dtype odata = Inr d"
    by (auto elim: valid_buffer_pairD)
  from execute_ready_lookups[OF assms(1)] obtain st where
    l: "import_pycuda env = Inr ()" "attr_gpuarray_GPUArray env = Inr (PyClass C_GPUArray)"
      "attr_driver_Stream env = Inr st"
    by blast
  show ?thesis
    by (simp add: execute_def l check_gpuarray_class[OF c(1)] check_gpuarray_class[OF c(2)]
        d assms(3,4,5))
qed

lemma execute_cases:
  assumes "execute env eng self idata odata pa pb w = (r, self1, w1)"
  shows "(\<exists>e. r = Inl e \<and> self1 = self \<and> w1 = w)
       \<or> (execute_ready env \<and> valid_buffer_pair idata odata \<and>
          (\<exists>p p' s. attr_ptr idata = Inr p \<and> attr_ptr odata = Inr p'
             \<and> attr_itemsize idata = Inr s
             \<and> (r, self1, w1) =
                 (case resolve eng self s w of
                    (self2, w2) \<Rightarrow> run_plan eng self2 p p' pa pb w2)))"
proof (cases "\<exists>e. r = Inl e \<and> self1 = self \<and> w1 = w")
  case True
  then show ?thesis by simp
next
  case False
  with assms obtain cls st u1 u2 idt p p' s where
    imp: "import_pycuda env = Inr ()" and
    cls: "attr_gpuarray_GPUArray env = Inr cls" and
    st: "attr_driver_Stream env = Inr st" and
    ci: "check_gpuarray env ''Input'' cls idata = Inr u1" and
    co: "check_gpuarray env ''Output'' cls odata = Inr u2" and
    di: "attr_dtype idata = Inr idt" and
    do: "attr_dtype odata = Inr idt" and
    rd: "attr_ptr idata = Inr p" "attr_ptr odata = Inr p'" "attr_itemsize idata = Inr s"
    by (simp add: execute_def split: sum.splits if_splits) (metis (full_types))+
  from ci attr_dtype_class[OF di] have "cls = PyClass C_GPUArray"
    by (auto dest: check_gpuarray_Inr)
  with imp cls st have ready: "execute_ready env"
    by (auto simp: execute_ready_def import_pycuda_def attr_gpuarray_GPUArray_def
        attr_gpuarray_def getattr_def attr_driver_Stream_def
        split: option.splits if_splits sum.splits)
  have valid: "valid_buffer_pair idata odata"
    by (rule valid_buffer_pairI[OF di do rd])
  from assms execute_ready_valid[OF ready valid rd, of eng self pa pb w]
  have "(r, self1, w1) =
      (case resolve eng self s w of (self2, w2) \<Rightarrow> run_plan eng self2 p p' pa pb w2)"
    by simp
  with ready valid rd show ?thesis by blast
qed

lemma coefficient_py_coefficient: "coefficient (py_coefficient c) = Inr c"
  by (cases c) (simp_all add: coefficient_def)

lemma resolve_resolved: "planInitialized self \<Longrightarrow> resolve eng self s w = (self, w)"
  by (simp add: resolve_def)

lemma resolve_unresolved:
  assumes "\<not> planInitialized self"
    and "plan_result eng (calls w) (cuttPlan (rank self) (dim self) (permutation self) s (stream self)) = (h, st)"
  shows "resolve eng self s w =
     (self\<lparr>plan := (case h of None \<Rightarrow> plan self | Some v \<Rightarrow> v), initStatus := st,
            planInitialized := True\<rparr>,
      w\<lparr>calls := calls w @ [cuttPlan (rank self) (dim self) (permutation self) s (stream self)]\<rparr>)"
  using assms by (simp add: resolve_def)

lemma run_plan_failed:
  "initStatus self \<noteq> CUTT_SUCCESS \<Longrightarrow>
   run_plan eng self i o' pa pb w =
     (Inl (invalid_argument (''cuTT error: '' @ cuttErrorString (initStatus self))), self, w)"
  by (simp add: run_plan_def)

lemma run_plan_ok:
  assumes "initStatus self = CUTT_SUCCESS" "coefficient pa = Inr a" "coefficient pb = Inr b"
  shows "run_plan eng self i o' pa pb w =
     (let c = cuttExecute (plan self) i o' a b; st = execute_result eng (calls w) c
      in (status_outcome st, self, w\<lparr>calls := calls w @ [c]\<rparr>))"
  using assms by (simp add: run_plan_def Let_def status_outcome_def)

lemma run_plan_cases:
  assumes "run_plan eng self i o' pa pb w = (r, self1, w1)"
  shows "self1 = self \<and>
     ((\<exists>e. r = Inl e \<and> w1 = w)
      \<or> (\<exists>a b. initStatus self = CUTT_SUCCESS \<and> coefficient pa = Inr a \<and> coefficient pb = Inr b
           \<and> w1 = w\<lparr>calls := calls w @ [cuttExecute (plan self) i o' a b]\<rparr>
           \<and> r = status_outcome (execute_result eng (calls w) (cuttExecute (plan self) i o' a b))))"
  using assms by (auto simp: run_plan_def Let_def status_outcome_def split: if_splits sum.splits)

lemma execute_resolved:
  assumes "planInitialized self" "execute env eng self idata odata pa pb w = (r, self1, w1)"
  shows "self1 = self \<and>
     ((\<exists>e. r = Inl e \<and> w1 = w)
      \<or> (\<exists>i o' a b. initStatus self = CUTT_SUCCESS
           \<and> coefficient pa = Inr a \<and> coefficient pb = Inr b
           \<and> attr_ptr idata = Inr i \<and> attr_ptr odata = Inr o'
           \<and> w1 = w\<lparr>calls := calls w @ [cuttExecute (plan self) i o' a b]\<rparr>
           \<and> r = status_outcome (execute_result eng (calls w) (cuttExecute (plan self) i o' a b))))"
proof -
  from execute_cases[OF assms(2)] show ?thesis
  proof
    assume "\<exists>e. r = Inl e \<and> self1 = self \<and> w1 = w"
    then show ?thesis by auto
  next
    assume "execute_ready env \<and> valid_buffer_pair idata odata \<and>
          (\<exists>p p' s. attr_ptr idata = Inr p \<and> attr_ptr odata = Inr p'
             \<and> attr_itemsize idata = Inr s
             \<and> (r, self1, w1) =
                 (case resolve eng self s w of
                    (self2, w2) \<Rightarrow> run_plan eng self2 p p' pa pb w2))"
    then obtain p p' s where
      io: "attr_ptr idata = Inr p" "attr_ptr odata = Inr p'" and
      "(r, self1, w1) = (case resolve eng self s w of
                    (self2, w2) \<Rightarrow> run_plan eng self2 p p' pa pb w2)"
      by blast
    with assms(1) have "run_plan eng self p p' pa pb w = (r, self1, w1)"
      by (simp add: resolve_resolved)
    from run_plan_cases[OF this] show ?thesis unfolding io by simp blast
  qed
qed

lemma execute_resolved_failed:
  assumes "planInitialized self" "initStatus self \<noteq> CUTT_SUCCESS"
  shows "\<exists>e. execute env eng self idata odata pa pb w = (Inl e, self, w)"
proof -
  obtain r self1 w1 where e: "execute env eng self idata odata pa pb w = (r, self1, w1)"
    by (metis prod_cases3)
  from execute_resolved[OF assms(1) e] assms(2) e show ?thesis by auto
qed

lemma coefficient_Inr: "coefficient py = Inr a \<Longrightarrow> py = py_coefficient a"
  by (cases py) (auto simp: coefficient_def split: if_splits)

lemma resolve_cases:
  assumes "resolve eng self s w = (self1, w1)"
  shows "(planInitialized self \<and> self1 = self \<and> w1 = w)
     \<or> (\<not> planInitialized self \<and> planInitialized self1
         \<and> initStatus self1 =
             snd (plan_result eng (calls w)
                    (cuttPlan (rank self) (dim self) (permutation self) s (stream self)))
         \<and> calls w1 =
             calls w @ [cuttPlan (rank self) (dim self) (permutation self) s (stream self)]
         \<and> cuttInitialized w1 = cuttInitialized w)"
  using assms by (auto simp: resolve_def Let_def split: if_splits prod.splits)

lemma execute_trace:
  assumes "execute env eng self idata odata pyalpha pybeta w = (r, self1, w1)"
  shows "\<exists>ps es. calls w1 = calls w @ ps @ es \<and> cuttInitialized w1 = cuttInitialized w
     \<and> (ps = [] \<and> self1 = self \<and> (es = [] \<or> planInitialized self)
        \<or> \<not> planInitialized self \<and> planInitialized self1
          \<and> (\<exists>sz. ps = [cuttPlan (rank self) (dim self) (permutation self) sz (stream self)]))
     \<and> (es = []
        \<or> (\<exists>i o' a b. es = [cuttExecute (plan self1) i o' a b]
             \<and> coefficient pyalpha = Inr a \<and> coefficient pybeta = Inr b))"
proof -
  from execute_cases[OF assms] show ?thesis
  proof
    assume "\<exists>e. r = Inl e \<and> self1 = self \<and> w1 = w"
    then have "calls w1 = calls w @ [] @ []" "cuttInitialized w1 = cuttInitialized w"
      "self1 = self" by auto
    then show ?thesis by blast
  next
    assume "execute_ready env \<and> valid_buffer_pair idata odata \<and>
          (\<exists>p p' s. attr_ptr idata = Inr p \<and> attr_ptr odata = Inr p'
             \<and> attr_itemsize idata = Inr s
             \<and> (r, self1, w1) =
                 (case resolve eng self s w of
                    (self2, w2) \<Rightarrow> run_plan eng self2 p p' pyalpha pybeta w2))"
    then obtain p s p' where
      eq: "(r, self1, w1) =
             (case resolve eng self s w of
                (self2, w2) \<Rightarrow> run_plan eng self2 p p' pyalpha pybeta w2)"
      by blast
    obtain self2 w2 where res: "resolve eng self s w = (self2, w2)"
      by (cases "resolve eng self s w")
    with eq have run: "run_plan eng self2 p p' pyalpha pybeta w2 = (r, self1, w1)"
      by simp
    from run_plan_cases[OF run] have s12: "self1 = self2" and
      rp: "w1 = w2 \<or> (\<exists>a b. coefficient pyalpha = Inr a \<and> coefficient pybeta = Inr b
           \<and> w1 = w2\<lparr>calls := calls w2 @ [cuttExecute (plan self2) p p' a b]\<rparr>)"
      by blast+
    from rp obtain es where
      es: "calls w1 = calls w2 @ es" "cuttInitialized w1 = cuttInitialized w2"
        "es = [] \<or> (\<exists>i o' a b. es = [cuttExecute (plan self1) i o' a b]
             \<and> coefficient pyalpha = Inr a \<and> coefficient pybeta = Inr b)"
    proof
      assume "w1 = w2"
      then have "calls w1 = calls w2 @ []" "cuttInitialized w1 = cuttInitialized w2" by simp_all
      then show ?thesis using that by blast
    next
      assume "\<exists>a b. coefficient pyalpha = Inr a \<and> coefficient pybeta = Inr b
           \<and> w1 = w2\<lparr>calls := calls w2 @ [cuttExecute (plan self2) p p' a b]\<rparr>"
      then obtain a b where ab: "coefficient pyalpha = Inr a" "coefficient pybeta = Inr b"
        "w1 = w2\<lparr>calls := calls w2 @ [cuttExecute (plan self2) p p' a b]\<rparr>" by blast
      then have "calls w1 = calls w2 @ [cuttExecute (plan self1) p p' a b]"
        "cuttInitialized w1 = cuttInitialized w2" using s12 by simp_all
      with ab show ?thesis using that by blast
    qed
    from resolve_cases[OF res] show ?thesis
    proof
      assume "planInitialized self \<and> self2 = self \<and> w2 = w"
      with es s12 have "calls w1 = calls w @ [] @ es" "cuttInitialized w1 = cuttInitialized w"
        "self1 = self" "planInitialized self" by simp_all
      with es(3) show ?thesis by blast
    next
      assume a: "\<not> planInitialized self \<and> planInitialized self2
         \<and> initStatus self2 =
             snd (plan_result eng (calls w)
                    (cuttPlan (rank self) (dim self) (permutation self) s (stream self)))
         \<and> calls w2 =
             calls w @ [cuttPlan (rank self) (dim self) (permutation self) s (stream self)]
         \<and> cuttInitialized w2 = cuttInitialized w"
      with es s12 have
        "calls w1 = calls w @ [cuttPlan (rank self) (dim self) (permutation self) s (stream self)] @ es"
        "cuttInitialized w1 = cuttInitialized w" "\<not> planInitialized self" "planInitialized self1"
        by simp_all
      with es(3) show ?thesis by blast
    qed
  qed
qed

lemma execute_all_resolved:
  assumes "planInitialized self" and "execute_all env eng self later w = (rs, self2, w2)"
  shows "self2 = self \<and> length rs = length later
     \<and> (\<exists>es. calls w2 = calls w @ es
           \<and> (\<forall>c\<in>set es. \<exists>i o' a b. c = cuttExecute (plan self) i o' a b))"
  using assms
proof (induction later arbitrary: w rs)
  case Nil
  then show ?case by simp
next
  case (Cons x later)
  obtain idata odata pa pb where x: "x = (idata, odata, pa, pb)"
    by (cases x)
  obtain r self1 w1 where e: "execute env eng self idata odata pa pb w = (r, self1, w1)"
    by (cases "execute env eng self idata odata pa pb w")
  obtain rs' self3 w3 where a: "execute_all env eng self1 later w1 = (rs', self3, w3)"
    by (cases "execute_all env eng self1 later w1")
  from Cons.prems(2) have fin: "rs = r # rs'" "self3 = self2" "w3 = w2"
    unfolding x by (simp_all add: e a)
  from execute_resolved[OF Cons.prems(1) e] have s1: "self1 = self" and
    one: "w1 = w \<or> (\<exists>i o' a b. w1 = w\<lparr>calls := calls w @ [cuttExecute (plan self) i o' a b]\<rparr>)"
    by blast+
  have "\<exists>es1. calls w1 = calls w @ es1
     \<and> (\<forall>c\<in>set es1. \<exists>i o' a b. c = cuttExecute (plan self) i o' a b)"
    using one
  proof
    assume "w1 = w"
    then have "calls w1 = calls w @ [] \<and>
       (\<forall>c\<in>set []. \<exists>i o' a b. c = cuttExecute (plan self) i o' a b)" by simp
    then show ?thesis by (rule exI)
  next
    assume "\<exists>i o' a b. w1 = w\<lparr>calls := calls w @ [cuttExecute (plan self) i o' a b]\<rparr>"
    then obtain i o' a b where "w1 = w\<lparr>calls := calls w @ [cuttExecute (plan self) i o' a b]\<rparr>"
      by blast
    then have "calls w1 = calls w @ [cuttExecute (plan self) i o' a b] \<and>
       (\<forall>c\<in>set [cuttExecute (plan self) i o' a b].
           \<exists>i o' a b. c = cuttExecute (plan self) i o' a b)" by simp
    then show ?thesis by (rule exI)
  qed
  then obtain es1 where es1: "calls w1 = calls w @ es1"
    "\<forall>c\<in>set es1. \<exists>i o' a b. c = cuttExecute (plan self) i o' a b"
    by blast
  from a have a': "execute_all env eng self later w1 = (rs', self2, w2)"
    unfolding s1 fin .
  from Cons.IH[OF Cons.prems(1) a'] obtain es2 where
    ih: "self2 = self" "length rs' = length later" "calls w2 = calls w1 @ es2"
      "\<forall>c\<in>set es2. \<exists>i o' a b. c = cuttExecute (plan self) i o' a b"
    by blast
  from es1 ih(3,4) have "calls w2 = calls w @ (es1 @ es2)
     \<and> (\<forall>c\<in>set (es1 @ es2). \<exists>i o' a b. c = cuttExecute (plan self) i o' a b)"
    by auto
  then have "\<exists>es. calls w2 = calls w @ es
           \<and> (\<forall>c\<in>set es. \<exists>i o' a b. c = cuttExecute (plan self) i o' a b)"
    by (rule exI)
  moreover have "length rs = length (x # later)" using fin(1) ih(2) by simp
  ultimately show ?case using ih(1) by simp
qed

lemma filter_planning_executes:
  "\<forall>c\<in>set es. \<exists>i o' a b. c = cuttExecute h i o' a b \<Longrightarrow> filter is_planning es = []"
  by (induction es) auto

lemma execute_all_failed:
  assumes "planInitialized self" and "initStatus self \<noteq> CUTT_SUCCESS"
  shows "execute_all env eng self later w =
     (map (\<lambda>(idata, odata, pyalpha, pybeta).
             fst (execute env eng self idata odata pyalpha pybeta w)) later,
      self, w)"
proof (induction later)
  case Nil
  show ?case by simp
next
  case (Cons x later)
  obtain idata odata pa pb where x: "x = (idata, odata, pa, pb)"
    by (cases x)
  from execute_resolved_failed[OF assms, of env eng idata odata pa pb w]
  obtain e where "execute env eng self idata odata pa pb w = (Inl e, self, w)"
    by blast
  with Cons.IH show ?case unfolding x by simp
qed

subsection \<open>The result mapper\<close>

text \<open>
  C9. The result mapper is a total function: each of the six result codes has its fixed
  text, and every value outside the six maps to the text for an unknown error.
\<close>

theorem cuttErrorString_total:
  "cuttErrorString CUTT_SUCCESS = ''Success''
   \<and> cuttErrorString CUTT_INVALID_PLAN = ''Invalid plan handle''
   \<and> cuttErrorString CUTT_INVALID_PARAMETER = ''Invalid input parameter''
   \<and> cuttErrorString CUTT_INVALID_DEVICE =
       ''Execution tried on device different than where plan was created''
   \<and> cuttErrorString CUTT_INTERNAL_ERROR = ''Internal error''
   \<and> cuttErrorString CUTT_UNDEFINED_ERROR = ''Undefined error''
   \<and> (\<forall>r. r \<notin> {CUTT_SUCCESS, CUTT_INVALID_PLAN, CUTT_INVALID_PARAMETER, CUTT_INVALID_DEVICE,
               CUTT_INTERNAL_ERROR, CUTT_UNDEFINED_ERROR}
          \<longrightarrow> cuttErrorString r = ''Unknown error'')"
proof -
  have "cuttErrorString r = ''Unknown error''"
    if "r \<notin> {CUTT_SUCCESS, CUTT_INVALID_PLAN, CUTT_INVALID_PARAMETER, CUTT_INVALID_DEVICE,
              CUTT_INTERNAL_ERROR, CUTT_UNDEFINED_ERROR}" for r
    using that by (cases r) simp_all
  then show ?thesis by simp
qed

theorem cuttErrorString_total_witness:
  "CUTT_UNLISTED 6 \<notin> {CUTT_SUCCESS, CUTT_INVALID_PLAN, CUTT_INVALID_PARAMETER,
        CUTT_INVALID_DEVICE, CUTT_INTERNAL_ERROR, CUTT_UNDEFINED_ERROR}
   \<and> cuttErrorString (CUTT_UNLISTED 6) = ''Unknown error''"
proof -
  have h: "CUTT_UNLISTED 6 \<notin> {CUTT_SUCCESS, CUTT_INVALID_PLAN, CUTT_INVALID_PARAMETER,
        CUTT_INVALID_DEVICE, CUTT_INTERNAL_ERROR, CUTT_UNDEFINED_ERROR}"
    by simp
  from cuttErrorString_total h show ?thesis by blast
qed

subsection \<open>Errors of a call of execute\<close>

lemmas env_simps = execute_def import_pycuda_def attr_gpuarray_GPUArray_def attr_gpuarray_def
  getattr_def attr_driver_Stream_def check_gpuarray_def resolve_def run_plan_def coefficient_def
  pycuda_env_def world0_def cast_intptr_t_def cast_size_t_def fits_intptr_t_def fits_size_t_def

text \<open>
  C5. On a resolved object, when a call of \<^verbatim>\<open>execute\<close> reaches the engine (it appends a
  call \<open>c\<close> to the engine calls), \<open>c\<close> is the engine's execute on the object's handle;
  if the engine answers with a code other than success, the call raises the error whose
  text is \<^verbatim>\<open>"cuTT error: "\<close> followed by the result mapper's text for that code; if it
  answers success, the call returns normally; in both cases the object is unchanged, so
  it is still resolved.
\<close>

theorem execute_reports_engine_result:
  assumes "planInitialized self"
    and "execute env eng self idata odata pyalpha pybeta w = (r, self1, w1)"
    and "calls w1 = calls w @ [c]"
  shows "(\<exists>i o' a b. c = cuttExecute (plan self) i o' a b)
     \<and> (execute_result eng (calls w) c \<noteq> CUTT_SUCCESS \<longrightarrow>
          r = Inl (invalid_argument
                (''cuTT error: '' @ cuttErrorString (execute_result eng (calls w) c))))
     \<and> (execute_result eng (calls w) c = CUTT_SUCCESS \<longrightarrow> r = Inr ())
     \<and> self1 = self \<and> planInitialized self1"
proof -
  from execute_resolved[OF assms(1,2)] have same: "self1 = self" and
    alt: "(\<exists>e. r = Inl e \<and> w1 = w)
      \<or> (\<exists>i o' a b. w1 = w\<lparr>calls := calls w @ [cuttExecute (plan self) i o' a b]\<rparr>
           \<and> r = status_outcome (execute_result eng (calls w) (cuttExecute (plan self) i o' a b)))"
    by blast+
  from assms(3) have "w1 \<noteq> w" by auto
  with alt obtain i o' a b where
    w1: "w1 = w\<lparr>calls := calls w @ [cuttExecute (plan self) i o' a b]\<rparr>" and
    r: "r = status_outcome (execute_result eng (calls w) (cuttExecute (plan self) i o' a b))"
    by blast
  from w1 assms(3) have c: "c = cuttExecute (plan self) i o' a b" by simp
  from c r same assms(1) show ?thesis by (simp add: status_outcome_def)
qed

theorem execute_reports_engine_result_witness:
  "planInitialized (a_plan True CUTT_SUCCESS)
   \<and> execute pycuda_env wrong_device_engine (a_plan True CUTT_SUCCESS)
        (PyGPUArray 7 100 4) (PyGPUArray 7 200 4) PyNone PyNone world0
      = (Inl (invalid_argument
           ''cuTT error: Execution tried on device different than where plan was created''),
         a_plan True CUTT_SUCCESS,
         \<lparr>cuttInitialized = False, calls = [cuttExecute 1 100 200 None None]\<rparr>)
   \<and> execute_result wrong_device_engine (calls world0) (cuttExecute 1 100 200 None None)
      = CUTT_INVALID_DEVICE
   \<and> Inl (invalid_argument
           ''cuTT error: Execution tried on device different than where plan was created'')
      = (Inl (invalid_argument (''cuTT error: '' @ cuttErrorString CUTT_INVALID_DEVICE))
           :: exn + unit)
   \<and> planInitialized (a_plan True CUTT_SUCCESS)"
proof -
  have h1: "planInitialized (a_plan True CUTT_SUCCESS)"
    by (simp add: a_plan_def)
  have h2: "execute pycuda_env wrong_device_engine (a_plan True CUTT_SUCCESS)
        (PyGPUArray 7 100 4) (PyGPUArray 7 200 4) PyNone PyNone world0
      = (Inl (invalid_argument
           ''cuTT error: Execution tried on device different than where plan was created''),
         a_plan True CUTT_SUCCESS,
         \<lparr>cuttInitialized = False, calls = [cuttExecute 1 100 200 None None]\<rparr>)"
    by (simp add: env_simps a_plan_def wrong_device_engine_def)
  have h3: "calls \<lparr>cuttInitialized = False, calls = [cuttExecute 1 100 200 None None]\<rparr>
      = calls world0 @ [cuttExecute 1 100 200 None None]"
    by (simp add: world0_def)
  have h4: "execute_result wrong_device_engine (calls world0) (cuttExecute 1 100 200 None None)
      = CUTT_INVALID_DEVICE"
    by (simp add: wrong_device_engine_def)
  note t = execute_reports_engine_result[OF h1 h2 h3]
  from t have h5: "Inl (invalid_argument
           ''cuTT error: Execution tried on device different than where plan was created'')
      = (Inl (invalid_argument (''cuTT error: '' @ cuttErrorString CUTT_INVALID_DEVICE))
           :: exn + unit)"
    unfolding h4 by blast
  show ?thesis by (intro conjI h1 h2 h4 h5)
qed

text \<open>
  C6. A call of \<^verbatim>\<open>execute\<close> whose two arrays report different dtype objects raises an
  error and leaves the object and the process state as they were: no engine call is made,
  neither planning nor execute. In a runtime where the lookups of \<^verbatim>\<open>execute\<close> succeed
  the error is the \<^verbatim>\<open>std::invalid_argument\<close> naming the two types.
\<close>

theorem execute_rejects_mismatched_types:
  assumes "attr_dtype idata = Inr a" and "attr_dtype odata = Inr b" and "a \<noteq> b"
  shows "(\<exists>e. execute env eng self idata odata pyalpha pybeta w = (Inl e, self, w))
     \<and> (execute_ready env \<longrightarrow>
          execute env eng self idata odata pyalpha pybeta w =
            (Inl (invalid_argument
               (''Input and output array must have the same type, got: ''
                @ py_str env (PyDtype a) @ '' and '' @ py_str env (PyDtype b))),
             self, w))"
proof -
  have 1: "\<exists>e. execute env eng self idata odata pyalpha pybeta w = (Inl e, self, w)"
    using assms(3)
    by (simp add: execute_def assms(1,2) split: sum.splits)
  have 2: "execute env eng self idata odata pyalpha pybeta w =
            (Inl (invalid_argument
               (''Input and output array must have the same type, got: ''
                @ py_str env (PyDtype a) @ '' and '' @ py_str env (PyDtype b))),
             self, w)" if "execute_ready env"
  proof -
    from execute_ready_lookups[OF that] obtain st where
      l: "import_pycuda env = Inr ()" "attr_gpuarray_GPUArray env = Inr (PyClass C_GPUArray)"
        "attr_driver_Stream env = Inr st"
      by blast
    show ?thesis
      using assms(3)
      by (simp add: execute_def l assms(1,2)
          check_gpuarray_class[OF attr_dtype_class[OF assms(1)]]
          check_gpuarray_class[OF attr_dtype_class[OF assms(2)]])
  qed
  from 1 2 show ?thesis by blast
qed

theorem execute_rejects_mismatched_types_witness:
  "attr_dtype (PyGPUArray 7 100 4) = Inr 7 \<and> attr_dtype (PyGPUArray 9 200 8) = Inr 9
   \<and> (7::nat) \<noteq> 9 \<and> execute_ready pycuda_env
   \<and> execute pycuda_env ok_engine (a_plan False CUTT_SUCCESS)
        (PyGPUArray 7 100 4) (PyGPUArray 9 200 8) PyNone PyNone world0
      = (Inl (invalid_argument
           ''Input and output array must have the same type, got: float32 and float64''),
         a_plan False CUTT_SUCCESS, world0)"
proof -
  have h1: "attr_dtype (PyGPUArray 7 100 4) = Inr 7" by simp
  have h2: "attr_dtype (PyGPUArray 9 200 8) = Inr 9" by simp
  have h3: "(7::nat) \<noteq> 9" by simp
  have h4: "execute_ready pycuda_env" by (simp add: execute_ready_def pycuda_env_def)
  have s: "py_str pycuda_env (PyDtype 7) = ''float32''" "py_str pycuda_env (PyDtype 9) = ''float64''"
    by (simp_all add: pycuda_env_def)
  from execute_rejects_mismatched_types[OF h1 h2 h3, of pycuda_env ok_engine
      "a_plan False CUTT_SUCCESS" PyNone PyNone world0] h1 h2 h3 h4 s
  show ?thesis by simp
qed

subsection \<open>Resolution happens once\<close>

text \<open>
  C4. On an object that is not yet resolved, a call of \<^verbatim>\<open>execute\<close> with a valid buffer
  pair leaves the object resolved and adds exactly one planning call to the engine calls,
  the \<^verbatim>\<open>cuttPlan\<close> with the object's rank, dimensions, permutation and stream and the
  element size of the input array; the object's handle is then the one that call wrote
  (the old content if it wrote none) and its status the result code of that call.
  Whatever calls of \<^verbatim>\<open>execute\<close> follow, with whatever arguments, the object stays as
  that first call left it, no planning call is added, and every engine call they add is
  an execute on the handle of that object.
\<close>

theorem first_execute_resolves_once:
  assumes "execute_ready env" and "\<not> planInitialized self"
    and "valid_buffer_pair idata odata"
    and "execute env eng self idata odata pyalpha pybeta w = (r, self1, w1)"
    and "execute_all env' eng' self1 later w1 = (rs, self2, w2)"
  shows "planInitialized self1
     \<and> (\<exists>sz h st. attr_itemsize idata = Inr sz
           \<and> plan_result eng (calls w)
                (cuttPlan (rank self) (dim self) (permutation self) sz (stream self)) = (h, st)
           \<and> plan self1 = (case h of None \<Rightarrow> plan self | Some v \<Rightarrow> v)
           \<and> initStatus self1 = st
           \<and> filter is_planning (calls w1) =
               filter is_planning (calls w)
               @ [cuttPlan (rank self) (dim self) (permutation self) sz (stream self)])
     \<and> self2 = self1
     \<and> filter is_planning (calls w2) = filter is_planning (calls w1)
     \<and> (\<forall>c\<in>set (drop (length (calls w1)) (calls w2)).
           \<exists>i o' a b. c = cuttExecute (plan self1) i o' a b)"
proof -
  from assms(3) obtain p p' s where
    rd: "attr_ptr idata = Inr p" "attr_ptr odata = Inr p'" "attr_itemsize idata = Inr s"
    by (auto elim: valid_buffer_pairD)
  let ?c = "cuttPlan (rank self) (dim self) (permutation self) s (stream self)"
  obtain h st where pr: "plan_result eng (calls w) ?c = (h, st)"
    by (cases "plan_result eng (calls w) ?c")
  let ?self0 = "self\<lparr>plan := (case h of None \<Rightarrow> plan self | Some v \<Rightarrow> v), initStatus := st,
            planInitialized := True\<rparr>"
  let ?w0 = "w\<lparr>calls := calls w @ [?c]\<rparr>"
  have res: "resolve eng self s w = (?self0, ?w0)"
    by (rule resolve_unresolved[OF assms(2) pr])
  with assms(4) execute_ready_valid[OF assms(1,3) rd, of eng self pyalpha pybeta w]
  have run: "run_plan eng ?self0 p p' pyalpha pybeta ?w0 = (r, self1, w1)"
    by simp
  from run_plan_cases[OF run] have s10: "self1 = ?self0" and
    "w1 = ?w0 \<or> (\<exists>a b. w1 = ?w0\<lparr>calls := calls ?w0 @ [cuttExecute (plan ?self0) p p' a b]\<rparr>)"
    by blast+
  then have "filter is_planning (calls w1) = filter is_planning (calls ?w0)"
    by auto
  then have first: "filter is_planning (calls w1) = filter is_planning (calls w) @ [?c]"
    by simp
  from s10 have p1: "planInitialized self1"
    and h1: "plan self1 = (case h of None \<Rightarrow> plan self | Some v \<Rightarrow> v)"
    and i1: "initStatus self1 = st"
    by simp_all
  from rd(3) pr h1 i1 first have second:
    "\<exists>sz h st. attr_itemsize idata = Inr sz
           \<and> plan_result eng (calls w)
                (cuttPlan (rank self) (dim self) (permutation self) sz (stream self)) = (h, st)
           \<and> plan self1 = (case h of None \<Rightarrow> plan self | Some v \<Rightarrow> v)
           \<and> initStatus self1 = st
           \<and> filter is_planning (calls w1) =
               filter is_planning (calls w)
               @ [cuttPlan (rank self) (dim self) (permutation self) sz (stream self)]"
    by blast
  from execute_all_resolved[OF p1 assms(5)] obtain es where
    later: "self2 = self1" "calls w2 = calls w1 @ es"
      "\<forall>c\<in>set es. \<exists>i o' a b. c = cuttExecute (plan self1) i o' a b"
    by blast
  from later(2,3) have l1: "filter is_planning (calls w2) = filter is_planning (calls w1)"
    by (simp add: filter_planning_executes)
  from later(2) have "drop (length (calls w1)) (calls w2) = es" by simp
  with later(3) have l2: "\<forall>c\<in>set (drop (length (calls w1)) (calls w2)).
           \<exists>i o' a b. c = cuttExecute (plan self1) i o' a b"
    by simp
  from p1 second later(1) l1 l2 show ?thesis by (intro conjI)
qed

theorem first_execute_resolves_once_witness:
  "execute_ready pycuda_env \<and> \<not> planInitialized fresh_plan
   \<and> valid_buffer_pair (PyGPUArray 7 100 4) (PyGPUArray 7 200 4)
   \<and> execute pycuda_env ok_engine fresh_plan
        (PyGPUArray 7 100 4) (PyGPUArray 7 200 4) PyNone PyNone world1
      = (Inr (), a_plan True CUTT_SUCCESS,
         \<lparr>cuttInitialized = True,
          calls = [cuttInitialize, cuttPlan 3 [4, 6, 8] [2, 0, 1] 4 0,
                   cuttExecute 1 100 200 None None]\<rparr>)
   \<and> execute_all pycuda_env ok_engine (a_plan True CUTT_SUCCESS)
        [(PyGPUArray 8 300 8, PyGPUArray 8 400 8, PyFloat (Finite 2), PyFloat (Finite (1 / 2)))]
        \<lparr>cuttInitialized = True,
          calls = [cuttInitialize, cuttPlan 3 [4, 6, 8] [2, 0, 1] 4 0,
                   cuttExecute 1 100 200 None None]\<rparr>
      = ([Inr ()], a_plan True CUTT_SUCCESS,
         \<lparr>cuttInitialized = True,
          calls = [cuttInitialize, cuttPlan 3 [4, 6, 8] [2, 0, 1] 4 0,
                   cuttExecute 1 100 200 None None,
                   cuttExecute 1 300 400 (Some (Finite 2)) (Some (Finite (1 / 2)))]\<rparr>)
   \<and> plan fresh_plan = 99
   \<and> plan_result ok_engine (calls world1) (cuttPlan 3 [4, 6, 8] [2, 0, 1] 4 0)
      = (Some 1, CUTT_SUCCESS)
   \<and> plan (a_plan True CUTT_SUCCESS) = 1
   \<and> (\<exists>sz h st. attr_itemsize (PyGPUArray 7 100 4) = Inr sz
           \<and> plan_result ok_engine (calls world1)
                (cuttPlan (rank fresh_plan) (dim fresh_plan) (permutation fresh_plan) sz
                   (stream fresh_plan)) = (h, st)
           \<and> plan (a_plan True CUTT_SUCCESS) = (case h of None \<Rightarrow> plan fresh_plan | Some v \<Rightarrow> v)
           \<and> initStatus (a_plan True CUTT_SUCCESS) = st
           \<and> filter is_planning
               (calls \<lparr>cuttInitialized = True,
                  calls = [cuttInitialize, cuttPlan 3 [4, 6, 8] [2, 0, 1] 4 0,
                           cuttExecute 1 100 200 None None]\<rparr>) =
               filter is_planning (calls world1)
               @ [cuttPlan (rank fresh_plan) (dim fresh_plan) (permutation fresh_plan) sz
                    (stream fresh_plan)])
   \<and> filter is_planning
        (calls \<lparr>cuttInitialized = True,
          calls = [cuttInitialize, cuttPlan 3 [4, 6, 8] [2, 0, 1] 4 0,
                   cuttExecute 1 100 200 None None,
                   cuttExecute 1 300 400 (Some (Finite 2)) (Some (Finite (1 / 2)))]\<rparr>)
      = filter is_planning
        (calls \<lparr>cuttInitialized = True,
          calls = [cuttInitialize, cuttPlan 3 [4, 6, 8] [2, 0, 1] 4 0,
                   cuttExecute 1 100 200 None None]\<rparr>)"
proof -
  have h1: "execute_ready pycuda_env"
    by (simp add: execute_ready_def pycuda_env_def)
  have h2: "\<not> planInitialized fresh_plan"
    by (simp add: fresh_plan_def)
  have h3: "valid_buffer_pair (PyGPUArray 7 100 4) (PyGPUArray 7 200 4)"
    by (simp add: valid_buffer_pair_def cast_intptr_t_def cast_size_t_def fits_intptr_t_def
        fits_size_t_def)
  have h4: "execute pycuda_env ok_engine fresh_plan
        (PyGPUArray 7 100 4) (PyGPUArray 7 200 4) PyNone PyNone world1
      = (Inr (), a_plan True CUTT_SUCCESS,
         \<lparr>cuttInitialized = True,
          calls = [cuttInitialize, cuttPlan 3 [4, 6, 8] [2, 0, 1] 4 0,
                   cuttExecute 1 100 200 None None]\<rparr>)"
    by (simp add: env_simps a_plan_def fresh_plan_def ok_engine_def world1_def)
  have h5: "execute_all pycuda_env ok_engine (a_plan True CUTT_SUCCESS)
        [(PyGPUArray 8 300 8, PyGPUArray 8 400 8, PyFloat (Finite 2), PyFloat (Finite (1 / 2)))]
        \<lparr>cuttInitialized = True,
          calls = [cuttInitialize, cuttPlan 3 [4, 6, 8] [2, 0, 1] 4 0,
                   cuttExecute 1 100 200 None None]\<rparr>
      = ([Inr ()], a_plan True CUTT_SUCCESS,
         \<lparr>cuttInitialized = True,
          calls = [cuttInitialize, cuttPlan 3 [4, 6, 8] [2, 0, 1] 4 0,
                   cuttExecute 1 100 200 None None,
                   cuttExecute 1 300 400 (Some (Finite 2)) (Some (Finite (1 / 2)))]\<rparr>)"
    by (simp add: env_simps a_plan_def ok_engine_def)
  have h6: "plan fresh_plan = 99" by (simp add: fresh_plan_def)
  have h7: "plan_result ok_engine (calls world1) (cuttPlan 3 [4, 6, 8] [2, 0, 1] 4 0)
      = (Some 1, CUTT_SUCCESS)"
    by (simp add: ok_engine_def)
  have h8: "plan (a_plan True CUTT_SUCCESS) = 1" by (simp add: a_plan_def)
  note t = first_execute_resolves_once[OF h1 h2 h3 h4 h5]
  from t have c1: "\<exists>sz h st. attr_itemsize (PyGPUArray 7 100 4) = Inr sz
           \<and> plan_result ok_engine (calls world1)
                (cuttPlan (rank fresh_plan) (dim fresh_plan) (permutation fresh_plan) sz
                   (stream fresh_plan)) = (h, st)
           \<and> plan (a_plan True CUTT_SUCCESS) = (case h of None \<Rightarrow> plan fresh_plan | Some v \<Rightarrow> v)
           \<and> initStatus (a_plan True CUTT_SUCCESS) = st
           \<and> filter is_planning
               (calls \<lparr>cuttInitialized = True,
                  calls = [cuttInitialize, cuttPlan 3 [4, 6, 8] [2, 0, 1] 4 0,
                           cuttExecute 1 100 200 None None]\<rparr>) =
               filter is_planning (calls world1)
               @ [cuttPlan (rank fresh_plan) (dim fresh_plan) (permutation fresh_plan) sz
                    (stream fresh_plan)]"
    by (elim conjE)
  from t have c2: "filter is_planning
        (calls \<lparr>cuttInitialized = True,
          calls = [cuttInitialize, cuttPlan 3 [4, 6, 8] [2, 0, 1] 4 0,
                   cuttExecute 1 100 200 None None,
                   cuttExecute 1 300 400 (Some (Finite 2)) (Some (Finite (1 / 2)))]\<rparr>)
      = filter is_planning
        (calls \<lparr>cuttInitialized = True,
          calls = [cuttInitialize, cuttPlan 3 [4, 6, 8] [2, 0, 1] 4 0,
                   cuttExecute 1 100 200 None None]\<rparr>)"
    by (elim conjE)
  show ?thesis by (intro conjI h1 h2 h3 h4 h5 h6 h7 h8 c1 c2)
qed

subsection \<open>The coefficients\<close>

text \<open>
  C8. When the lookups of \<^verbatim>\<open>execute\<close> succeed, the arrays are a valid pair and the
  plan is resolved with success, a call whose coefficients are passed as \<open>alpha\<close> and
  \<open>beta\<close> (each absent or a number) makes the engine's execute call with exactly
  \<open>alpha\<close> and \<open>beta\<close>: \<^verbatim>\<open>NULL\<close> for an absent one, a pointer to the caller's
  value otherwise. Conversely, every engine execute call that a call of \<^verbatim>\<open>execute\<close>
  makes carries the coefficients the caller passed.
\<close>

theorem execute_forwards_coefficients:
  "(execute_ready env \<and> valid_buffer_pair idata odata
      \<and> attr_ptr idata = Inr p \<and> attr_ptr odata = Inr p' \<and> attr_itemsize idata = Inr s
      \<and> resolve eng self s w = (self1, w1) \<and> initStatus self1 = CUTT_SUCCESS
      \<longrightarrow> (\<exists>r. execute env eng self idata odata
                  (py_coefficient alpha) (py_coefficient beta) w
               = (r, self1,
                  w1\<lparr>calls := calls w1 @ [cuttExecute (plan self1) p p' alpha beta]\<rparr>)))
   \<and> (execute env eng self idata odata pyalpha pybeta w = (r', self', w')
        \<and> cuttExecute h i o' a b \<in> set (drop (length (calls w)) (calls w'))
      \<longrightarrow> pyalpha = py_coefficient a \<and> pybeta = py_coefficient b)"
proof (rule conjI; rule impI)
  assume a: "execute_ready env \<and> valid_buffer_pair idata odata
      \<and> attr_ptr idata = Inr p \<and> attr_ptr odata = Inr p' \<and> attr_itemsize idata = Inr s
      \<and> resolve eng self s w = (self1, w1) \<and> initStatus self1 = CUTT_SUCCESS"
  then have f: "execute_ready env" "valid_buffer_pair idata odata"
    "attr_ptr idata = Inr p" "attr_ptr odata = Inr p'" "attr_itemsize idata = Inr s"
    and res: "resolve eng self s w = (self1, w1)" and ok: "initStatus self1 = CUTT_SUCCESS"
    by blast+
  have "execute env eng self idata odata (py_coefficient alpha) (py_coefficient beta) w
     = run_plan eng self1 p p' (py_coefficient alpha) (py_coefficient beta) w1"
    by (simp add: execute_ready_valid[OF f] res)
  also have "\<dots> =
     (status_outcome (execute_result eng (calls w1) (cuttExecute (plan self1) p p' alpha beta)),
      self1, w1\<lparr>calls := calls w1 @ [cuttExecute (plan self1) p p' alpha beta]\<rparr>)"
    by (simp add: run_plan_ok[OF ok coefficient_py_coefficient coefficient_py_coefficient]
        Let_def)
  finally show "\<exists>r. execute env eng self idata odata
                  (py_coefficient alpha) (py_coefficient beta) w
               = (r, self1,
                  w1\<lparr>calls := calls w1 @ [cuttExecute (plan self1) p p' alpha beta]\<rparr>)"
    by blast
next
  assume a: "execute env eng self idata odata pyalpha pybeta w = (r', self', w')
        \<and> cuttExecute h i o' a b \<in> set (drop (length (calls w)) (calls w'))"
  then have e: "execute env eng self idata odata pyalpha pybeta w = (r', self', w')"
    and m: "cuttExecute h i o' a b \<in> set (drop (length (calls w)) (calls w'))"
    by blast+
  from execute_trace[OF e] obtain ps es where
    tr: "calls w' = calls w @ ps @ es"
      "ps = [] \<or> (\<exists>sz. ps = [cuttPlan (rank self) (dim self) (permutation self) sz (stream self)])"
      "es = [] \<or> (\<exists>i o' a b. es = [cuttExecute (plan self') i o' a b]
             \<and> coefficient pyalpha = Inr a \<and> coefficient pybeta = Inr b)"
    by blast
  from tr(1) m have "cuttExecute h i o' a b \<in> set ps \<or> cuttExecute h i o' a b \<in> set es"
    by auto
  with tr(2) have "cuttExecute h i o' a b \<in> set es" by auto
  with tr(3) have "coefficient pyalpha = Inr a \<and> coefficient pybeta = Inr b" by auto
  then show "pyalpha = py_coefficient a \<and> pybeta = py_coefficient b"
    by (simp add: coefficient_Inr)
qed

theorem execute_forwards_coefficients_witness:
  "execute_ready pycuda_env
   \<and> valid_buffer_pair (PyGPUArray 7 100 4) (PyGPUArray 7 200 4)
   \<and> attr_ptr (PyGPUArray 7 100 4) = Inr 100 \<and> attr_ptr (PyGPUArray 7 200 4) = Inr 200
   \<and> attr_itemsize (PyGPUArray 7 100 4) = Inr 4
   \<and> resolve ok_engine fresh_plan 4 world1
      = (a_plan True CUTT_SUCCESS,
         \<lparr>cuttInitialized = True,
          calls = [cuttInitialize, cuttPlan 3 [4, 6, 8] [2, 0, 1] 4 0]\<rparr>)
   \<and> initStatus (a_plan True CUTT_SUCCESS) = CUTT_SUCCESS
   \<and> execute pycuda_env ok_engine fresh_plan
        (PyGPUArray 7 100 4) (PyGPUArray 7 200 4)
        (PyFloat (Finite 2)) (PyFloat (Finite (1 / 2))) world1
      = (Inr (), a_plan True CUTT_SUCCESS,
         \<lparr>cuttInitialized = True,
          calls = [cuttInitialize, cuttPlan 3 [4, 6, 8] [2, 0, 1] 4 0,
                   cuttExecute 1 100 200 (Some (Finite 2)) (Some (Finite (1 / 2)))]\<rparr>)
   \<and> execute pycuda_env ok_engine fresh_plan
        (PyGPUArray 7 100 4) (PyGPUArray 7 200 4) PyNone PyNone world1
      = (Inr (), a_plan True CUTT_SUCCESS,
         \<lparr>cuttInitialized = True,
          calls = [cuttInitialize, cuttPlan 3 [4, 6, 8] [2, 0, 1] 4 0,
                   cuttExecute 1 100 200 None None]\<rparr>)
   \<and> cuttExecute 1 100 200 None None
       \<in> set (drop (length (calls world1))
            (calls \<lparr>cuttInitialized = True,
               calls = [cuttInitialize, cuttPlan 3 [4, 6, 8] [2, 0, 1] 4 0,
                        cuttExecute 1 100 200 None None]\<rparr>))
   \<and> (\<exists>r. execute pycuda_env ok_engine fresh_plan
        (PyGPUArray 7 100 4) (PyGPUArray 7 200 4)
        (py_coefficient (Some (Finite 2))) (py_coefficient (Some (Finite (1 / 2)))) world1
      = (r, a_plan True CUTT_SUCCESS,
         \<lparr>cuttInitialized = True,
          calls = [cuttInitialize, cuttPlan 3 [4, 6, 8] [2, 0, 1] 4 0]\<rparr>
         \<lparr>calls := calls \<lparr>cuttInitialized = True,
             calls = [cuttInitialize, cuttPlan 3 [4, 6, 8] [2, 0, 1] 4 0]\<rparr>
           @ [cuttExecute (plan (a_plan True CUTT_SUCCESS)) 100 200
                (Some (Finite 2)) (Some (Finite (1 / 2)))]\<rparr>))
   \<and> (PyNone = py_coefficient None \<and> PyNone = py_coefficient None)"
proof -
  have h1: "execute_ready pycuda_env"
    by (simp add: execute_ready_def pycuda_env_def)
  have h1a: "valid_buffer_pair (PyGPUArray 7 100 4) (PyGPUArray 7 200 4)"
    by (simp add: valid_buffer_pair_def cast_intptr_t_def cast_size_t_def fits_intptr_t_def
        fits_size_t_def)
  have h1b: "attr_ptr (PyGPUArray 7 100 4) = Inr 100"
    by (simp add: cast_intptr_t_def fits_intptr_t_def)
  have h1c: "attr_ptr (PyGPUArray 7 200 4) = Inr 200"
    by (simp add: cast_intptr_t_def fits_intptr_t_def)
  have h1d: "attr_itemsize (PyGPUArray 7 100 4) = Inr 4"
    by (simp add: cast_size_t_def fits_size_t_def)
  have h2: "resolve ok_engine fresh_plan 4 world1
      = (a_plan True CUTT_SUCCESS,
         \<lparr>cuttInitialized = True,
          calls = [cuttInitialize, cuttPlan 3 [4, 6, 8] [2, 0, 1] 4 0]\<rparr>)"
    by (simp add: resolve_def a_plan_def fresh_plan_def ok_engine_def world1_def)
  have h3: "initStatus (a_plan True CUTT_SUCCESS) = CUTT_SUCCESS"
    by (simp add: a_plan_def)
  have h4: "execute pycuda_env ok_engine fresh_plan
        (PyGPUArray 7 100 4) (PyGPUArray 7 200 4)
        (PyFloat (Finite 2)) (PyFloat (Finite (1 / 2))) world1
      = (Inr (), a_plan True CUTT_SUCCESS,
         \<lparr>cuttInitialized = True,
          calls = [cuttInitialize, cuttPlan 3 [4, 6, 8] [2, 0, 1] 4 0,
                   cuttExecute 1 100 200 (Some (Finite 2)) (Some (Finite (1 / 2)))]\<rparr>)"
    by (simp add: env_simps a_plan_def fresh_plan_def ok_engine_def world1_def)
  have h5: "execute pycuda_env ok_engine fresh_plan
        (PyGPUArray 7 100 4) (PyGPUArray 7 200 4) PyNone PyNone world1
      = (Inr (), a_plan True CUTT_SUCCESS,
         \<lparr>cuttInitialized = True,
          calls = [cuttInitialize, cuttPlan 3 [4, 6, 8] [2, 0, 1] 4 0,
                   cuttExecute 1 100 200 None None]\<rparr>)"
    by (simp add: env_simps a_plan_def fresh_plan_def ok_engine_def world1_def)
  have h6: "cuttExecute 1 100 200 None None
       \<in> set (drop (length (calls world1))
            (calls \<lparr>cuttInitialized = True,
               calls = [cuttInitialize, cuttPlan 3 [4, 6, 8] [2, 0, 1] 4 0,
                        cuttExecute 1 100 200 None None]\<rparr>))"
    by (simp add: world1_def)
  note t = execute_forwards_coefficients[where env = pycuda_env and eng = ok_engine
      and self = fresh_plan and s = 4 and w = world1
      and ?self1.0 = "a_plan True CUTT_SUCCESS"
      and ?w1.0 = "\<lparr>cuttInitialized = True,
          calls = [cuttInitialize, cuttPlan 3 [4, 6, 8] [2, 0, 1] 4 0]\<rparr>"
      and p = 100 and p' = 200 and alpha = "Some (Finite 2)" and beta = "Some (Finite (1 / 2))"
      and idata = "PyGPUArray 7 100 4" and odata = "PyGPUArray 7 200 4"
      and pyalpha = PyNone and pybeta = PyNone and r' = "Inr ()"
      and self' = "a_plan True CUTT_SUCCESS"
      and w' = "\<lparr>cuttInitialized = True,
          calls = [cuttInitialize, cuttPlan 3 [4, 6, 8] [2, 0, 1] 4 0,
                   cuttExecute 1 100 200 None None]\<rparr>"
      and h = 1 and i = 100 and o' = 200 and a = None and b = None]
  from t[THEN conjunct1, rule_format,
      OF conjI[OF h1 conjI[OF h1a conjI[OF h1b conjI[OF h1c conjI[OF h1d conjI[OF h2 h3]]]]]]]
  have c1:
    "\<exists>r. execute pycuda_env ok_engine fresh_plan
        (PyGPUArray 7 100 4) (PyGPUArray 7 200 4)
        (py_coefficient (Some (Finite 2))) (py_coefficient (Some (Finite (1 / 2)))) world1
      = (r, a_plan True CUTT_SUCCESS,
         \<lparr>cuttInitialized = True,
          calls = [cuttInitialize, cuttPlan 3 [4, 6, 8] [2, 0, 1] 4 0]\<rparr>
         \<lparr>calls := calls \<lparr>cuttInitialized = True,
             calls = [cuttInitialize, cuttPlan 3 [4, 6, 8] [2, 0, 1] 4 0]\<rparr>
           @ [cuttExecute (plan (a_plan True CUTT_SUCCESS)) 100 200
                (Some (Finite 2)) (Some (Finite (1 / 2)))]\<rparr>)" .
  from t[THEN conjunct2, rule_format, OF conjI[OF h5 h6]] have c2:
    "PyNone = py_coefficient None \<and> PyNone = py_coefficient None" .
  show ?thesis by (intro conjI h1 h1a h1b h1c h1d h2 h3 h4 h5 h6 c1) (rule c2[THEN conjunct1])+
qed

subsection \<open>A failed deferred planning\<close>

text \<open>
  C10, as stated, fails in one point. After a failed deferred planning, a later call of
  \<^verbatim>\<open>execute\<close> whose arrays have different dtype objects raises the error of the type
  check, which does not describe the stored planning result.
\<close>

theorem later_execute_reports_buffer_error:
  "execute pycuda_env no_plan_engine (a_plan False CUTT_UNDEFINED_ERROR)
       (PyGPUArray 7 100 4) (PyGPUArray 7 200 4) PyNone PyNone world1
     = (Inl (invalid_argument ''cuTT error: Invalid input parameter''),
        a_plan True CUTT_INVALID_PARAMETER,
        \<lparr>cuttInitialized = True,
         calls = [cuttInitialize, cuttPlan 3 [4, 6, 8] [2, 0, 1] 4 0]\<rparr>)
   \<and> execute pycuda_env no_plan_engine (a_plan True CUTT_INVALID_PARAMETER)
       (PyGPUArray 7 100 4) (PyGPUArray 9 200 8) PyNone PyNone
       \<lparr>cuttInitialized = True,
         calls = [cuttInitialize, cuttPlan 3 [4, 6, 8] [2, 0, 1] 4 0]\<rparr>
     = (Inl (invalid_argument
          ''Input and output array must have the same type, got: float32 and float64''),
        a_plan True CUTT_INVALID_PARAMETER,
        \<lparr>cuttInitialized = True,
         calls = [cuttInitialize, cuttPlan 3 [4, 6, 8] [2, 0, 1] 4 0]\<rparr>)"
  by (simp add: env_simps a_plan_def no_plan_engine_def world1_def)

text \<open>
  C10, amended. When the planning call made by the first \<^verbatim>\<open>execute\<close> (a call with a
  valid buffer pair on an object not yet resolved) answers with a code other than
  success, that call raises the error describing the code, and the object is left
  resolved with the code stored. From then on every call of \<^verbatim>\<open>execute\<close>, in whatever
  runtime, with whatever engine and arguments, raises an error and changes neither the
  object nor the engine calls: the planning is never made again, and the engine's
  execute is never reached. Each such call with a valid buffer pair (the arrays pass the
  checks and their addresses and element size can be read) raises the error describing
  the stored planning result.
\<close>

theorem failed_resolution_is_permanent:
  assumes "execute_ready env" and "\<not> planInitialized self"
    and "valid_buffer_pair idata odata" and "attr_itemsize idata = Inr s"
    and "plan_result eng (calls w)
           (cuttPlan (rank self) (dim self) (permutation self) s (stream self)) = (h, st)"
    and "st \<noteq> CUTT_SUCCESS"
    and "execute env eng self idata odata pyalpha pybeta w = (r, self1, w1)"
  shows "r = Inl (invalid_argument (''cuTT error: '' @ cuttErrorString st))
     \<and> planInitialized self1 \<and> initStatus self1 = st
     \<and> calls w1 = calls w @ [cuttPlan (rank self) (dim self) (permutation self) s (stream self)]
     \<and> (\<forall>env' eng' later.
           execute_all env' eng' self1 later w1 =
             (map (\<lambda>(idata, odata, pyalpha, pybeta).
                     fst (execute env' eng' self1 idata odata pyalpha pybeta w1)) later,
              self1, w1))
     \<and> (\<forall>env' eng' idata' odata' pyalpha' pybeta'.
           \<exists>e. execute env' eng' self1 idata' odata' pyalpha' pybeta' w1 = (Inl e, self1, w1))
     \<and> (\<forall>env' eng' idata' odata' pyalpha' pybeta'.
           execute_ready env' \<and> valid_buffer_pair idata' odata' \<longrightarrow>
           execute env' eng' self1 idata' odata' pyalpha' pybeta' w1 =
             (Inl (invalid_argument (''cuTT error: '' @ cuttErrorString st)), self1, w1))"
proof -
  let ?c = "cuttPlan (rank self) (dim self) (permutation self) s (stream self)"
  let ?self1 = "self\<lparr>plan := (case h of None \<Rightarrow> plan self | Some v \<Rightarrow> v), initStatus := st,
            planInitialized := True\<rparr>"
  let ?w1 = "w\<lparr>calls := calls w @ [?c]\<rparr>"
  from assms(3) obtain p p' s0 where
    rd: "attr_ptr idata = Inr p" "attr_ptr odata = Inr p'" "attr_itemsize idata = Inr s0"
    by (auto elim: valid_buffer_pairD)
  from rd(3) assms(4) have rd3: "attr_itemsize idata = Inr s" by simp
  have res: "resolve eng self s w = (?self1, ?w1)"
    by (rule resolve_unresolved[OF assms(2,5)])
  have st1: "initStatus ?self1 \<noteq> CUTT_SUCCESS" using assms(6) by simp
  have "execute env eng self idata odata pyalpha pybeta w
      = run_plan eng ?self1 p p' pyalpha pybeta ?w1"
    by (simp add: execute_ready_valid[OF assms(1,3) rd(1,2) rd3] res)
  also have "\<dots> = (Inl (invalid_argument (''cuTT error: '' @ cuttErrorString st)), ?self1, ?w1)"
    using run_plan_failed[OF st1, of eng p p' pyalpha pybeta ?w1] by simp
  finally have first: "r = Inl (invalid_argument (''cuTT error: '' @ cuttErrorString st))"
    "self1 = ?self1" "w1 = ?w1"
    using assms(7) by simp_all
  have p1: "planInitialized self1" and i1: "initStatus self1 = st"
    and f1: "initStatus self1 \<noteq> CUTT_SUCCESS"
    and c1: "calls w1 = calls w @ [?c]"
    using first assms(6) by simp_all
  have seq: "execute_all env' eng' self1 later w1 =
             (map (\<lambda>(idata, odata, pyalpha, pybeta).
                     fst (execute env' eng' self1 idata odata pyalpha pybeta w1)) later,
              self1, w1)" for env' eng' later
    by (rule execute_all_failed[OF p1 f1])
  have any: "\<exists>e. execute env' eng' self1 idata' odata' pyalpha' pybeta' w1 = (Inl e, self1, w1)"
    for env' eng' idata' odata' pyalpha' pybeta'
    by (rule execute_resolved_failed[OF p1 f1])
  have valid: "execute env' eng' self1 idata' odata' pyalpha' pybeta' w1 =
       (Inl (invalid_argument (''cuTT error: '' @ cuttErrorString st)), self1, w1)"
    if "execute_ready env' \<and> valid_buffer_pair idata' odata'"
    for env' eng' idata' odata' pyalpha' pybeta'
  proof -
    from that have r': "execute_ready env'" and v': "valid_buffer_pair idata' odata'"
      by blast+
    from v' obtain p2 p2' s2 where
      rd': "attr_ptr idata' = Inr p2" "attr_ptr odata' = Inr p2'" "attr_itemsize idata' = Inr s2"
      by (auto elim: valid_buffer_pairD)
    have "execute env' eng' self1 idata' odata' pyalpha' pybeta' w1
        = run_plan eng' self1 p2 p2' pyalpha' pybeta' w1"
      by (simp add: execute_ready_valid[OF r' v' rd'] resolve_resolved[OF p1])
    also have "\<dots> = (Inl (invalid_argument (''cuTT error: '' @ cuttErrorString st)), self1, w1)"
      using run_plan_failed[OF f1, of eng' p2 p2' pyalpha' pybeta' w1] i1 by simp
    finally show ?thesis .
  qed
  show ?thesis
    using first(1) p1 i1 c1 seq any valid by blast
qed

theorem failed_resolution_is_permanent_witness:
  "execute_ready pycuda_env \<and> \<not> planInitialized fresh_plan
   \<and> valid_buffer_pair (PyGPUArray 7 100 4) (PyGPUArray 7 200 4)
   \<and> attr_itemsize (PyGPUArray 7 100 4) = Inr 4
   \<and> plan_result no_plan_engine (calls world1)
        (cuttPlan (rank fresh_plan) (dim fresh_plan) (permutation fresh_plan) 4
           (stream fresh_plan))
      = (None, CUTT_INVALID_PARAMETER)
   \<and> CUTT_INVALID_PARAMETER \<noteq> CUTT_SUCCESS
   \<and> execute pycuda_env no_plan_engine fresh_plan
        (PyGPUArray 7 100 4) (PyGPUArray 7 200 4) PyNone PyNone world1
      = (Inl (invalid_argument ''cuTT error: Invalid input parameter''),
         fresh_plan\<lparr>initStatus := CUTT_INVALID_PARAMETER, planInitialized := True\<rparr>,
         \<lparr>cuttInitialized = True,
          calls = [cuttInitialize, cuttPlan 3 [4, 6, 8] [2, 0, 1] 4 0]\<rparr>)
   \<and> valid_buffer_pair (PyGPUArray 8 300 8) (PyGPUArray 8 400 8)
   \<and> execute pycuda_env ok_engine
        (fresh_plan\<lparr>initStatus := CUTT_INVALID_PARAMETER, planInitialized := True\<rparr>)
        (PyGPUArray 8 300 8) (PyGPUArray 8 400 8) (PyFloat (Finite 2)) PyNone
        \<lparr>cuttInitialized = True,
          calls = [cuttInitialize, cuttPlan 3 [4, 6, 8] [2, 0, 1] 4 0]\<rparr>
      = (Inl (invalid_argument (''cuTT error: '' @ cuttErrorString CUTT_INVALID_PARAMETER)),
         fresh_plan\<lparr>initStatus := CUTT_INVALID_PARAMETER, planInitialized := True\<rparr>,
         \<lparr>cuttInitialized = True,
          calls = [cuttInitialize, cuttPlan 3 [4, 6, 8] [2, 0, 1] 4 0]\<rparr>)"
proof -
  have h1: "execute_ready pycuda_env"
    by (simp add: execute_ready_def pycuda_env_def)
  have h2: "\<not> planInitialized fresh_plan"
    by (simp add: fresh_plan_def)
  have h2a: "valid_buffer_pair (PyGPUArray 7 100 4) (PyGPUArray 7 200 4)"
    by (simp add: valid_buffer_pair_def cast_intptr_t_def cast_size_t_def fits_intptr_t_def
        fits_size_t_def)
  have h2b: "attr_itemsize (PyGPUArray 7 100 4) = Inr 4"
    by (simp add: cast_size_t_def fits_size_t_def)
  have h3: "plan_result no_plan_engine (calls world1)
        (cuttPlan (rank fresh_plan) (dim fresh_plan) (permutation fresh_plan) 4
           (stream fresh_plan))
      = (None, CUTT_INVALID_PARAMETER)"
    by (simp add: no_plan_engine_def)
  have h4: "CUTT_INVALID_PARAMETER \<noteq> CUTT_SUCCESS" by simp
  have h5: "execute pycuda_env no_plan_engine fresh_plan
        (PyGPUArray 7 100 4) (PyGPUArray 7 200 4) PyNone PyNone world1
      = (Inl (invalid_argument ''cuTT error: Invalid input parameter''),
         fresh_plan\<lparr>initStatus := CUTT_INVALID_PARAMETER, planInitialized := True\<rparr>,
         \<lparr>cuttInitialized = True,
          calls = [cuttInitialize, cuttPlan 3 [4, 6, 8] [2, 0, 1] 4 0]\<rparr>)"
    by (simp add: env_simps fresh_plan_def no_plan_engine_def world1_def)
  have h6: "valid_buffer_pair (PyGPUArray 8 300 8) (PyGPUArray 8 400 8)"
    by (simp add: valid_buffer_pair_def cast_intptr_t_def cast_size_t_def fits_intptr_t_def
        fits_size_t_def)
  note t = failed_resolution_is_permanent[OF h1 h2 h2a h2b h3 h4 h5]
  from t have "\<forall>env' eng' idata' odata' pyalpha' pybeta'.
           execute_ready env' \<and> valid_buffer_pair idata' odata' \<longrightarrow>
           execute env' eng'
             (fresh_plan\<lparr>initStatus := CUTT_INVALID_PARAMETER, planInitialized := True\<rparr>)
             idata' odata' pyalpha' pybeta'
             \<lparr>cuttInitialized = True,
               calls = [cuttInitialize, cuttPlan 3 [4, 6, 8] [2, 0, 1] 4 0]\<rparr> =
             (Inl (invalid_argument (''cuTT error: '' @ cuttErrorString CUTT_INVALID_PARAMETER)),
              fresh_plan\<lparr>initStatus := CUTT_INVALID_PARAMETER, planInitialized := True\<rparr>,
              \<lparr>cuttInitialized = True,
               calls = [cuttInitialize, cuttPlan 3 [4, 6, 8] [2, 0, 1] 4 0]\<rparr>)"
    by (elim conjE)
  from this[rule_format, OF conjI[OF h1 h6]] have c:
    "execute pycuda_env ok_engine
        (fresh_plan\<lparr>initStatus := CUTT_INVALID_PARAMETER, planInitialized := True\<rparr>)
        (PyGPUArray 8 300 8) (PyGPUArray 8 400 8) (PyFloat (Finite 2)) PyNone
        \<lparr>cuttInitialized = True,
          calls = [cuttInitialize, cuttPlan 3 [4, 6, 8] [2, 0, 1] 4 0]\<rparr>
      = (Inl (invalid_argument (''cuTT error: '' @ cuttErrorString CUTT_INVALID_PARAMETER)),
         fresh_plan\<lparr>initStatus := CUTT_INVALID_PARAMETER, planInitialized := True\<rparr>,
         \<lparr>cuttInitialized = True,
          calls = [cuttInitialize, cuttPlan 3 [4, 6, 8] [2, 0, 1] 4 0]\<rparr>)" .
  show ?thesis by (intro conjI h1 h2 h2a h2b h3 h4 h5 h6 c)
qed

subsection \<open>The constructors and the engine calls of a client\<close>

lemma cuTT_ctor_world:
  "snd (cuTT_ctor env r d p s h0 s0 w) = call_once_cuttInitialize w"
  by (simp add: cuTT_ctor_def Let_def split: sum.splits)

lemma cuTT_ctor_measured_cases:
  assumes "cuTT_ctor_measured env eng r d p s idata odata alpha beta h0 s0 w = (res, w1)"
  shows "(\<exists>e. res = Inl e \<and> w1 = call_once_cuttInitialize w)
     \<or> (\<exists>self sz st ip op h c. res = Inr self
          \<and> c = cuttPlanMeasure r d p sz st ip op alpha beta
          \<and> w1 = (call_once_cuttInitialize w)
                   \<lparr>calls := calls (call_once_cuttInitialize w) @ [c]\<rparr>
          \<and> plan_result eng (calls (call_once_cuttInitialize w)) c = (h, initStatus self)
          \<and> planInitialized self)"
proof (cases "\<exists>e. res = Inl e \<and> w1 = call_once_cuttInitialize w")
  case True
  then show ?thesis by simp
next
  case False
  with assms obtain cls pst u1 u2 st idt ip op sz where
    f: "import_pycuda env = Inr ()" "attr_gpuarray env = Inr cls"
      "attr_driver_Stream env = Inr pst"
      "check_gpuarray env ''Input'' cls idata = Inr u1"
      "check_gpuarray env ''Output'' cls odata = Inr u2"
      "stream_of env pst s = Inr st"
      "attr_dtype idata = Inr idt" "attr_dtype odata = Inr idt"
      "attr_ptr idata = Inr ip" "attr_ptr odata = Inr op" "attr_itemsize idata = Inr sz"
    by (simp add: cuTT_ctor_measured_def Let_def split: sum.splits if_splits)
       (metis (full_types))+
  let ?w = "call_once_cuttInitialize w"
  let ?c = "cuttPlanMeasure r d p sz st ip op alpha beta"
  obtain h stt where pr: "plan_result eng (calls ?w) ?c = (h, stt)"
    by (cases "plan_result eng (calls ?w) ?c")
  let ?self = "\<lparr>plan = (case h of None \<Rightarrow> h0 | Some v \<Rightarrow> v), initStatus = stt,
                planInitialized = True, rank = r, dim = d, permutation = p, stream = st\<rparr>"
  from assms f pr have "res = Inr ?self"
    "w1 = ?w\<lparr>calls := calls ?w @ [?c]\<rparr>"
    by (simp_all add: cuTT_ctor_measured_def Let_def)
  with pr have "res = Inr ?self \<and> ?c = cuttPlanMeasure r d p sz st ip op alpha beta
     \<and> w1 = ?w\<lparr>calls := calls ?w @ [?c]\<rparr>
     \<and> plan_result eng (calls ?w) ?c = (h, initStatus ?self) \<and> planInitialized ?self"
    by simp
  then show ?thesis by blast
qed

lemma call_once_cases:
  "cuttInitialized (call_once_cuttInitialize w)
   \<and> calls (call_once_cuttInitialize w) =
       (if cuttInitialized w then calls w else calls w @ [cuttInitialize])"
  by (simp add: call_once_cuttInitialize_def)

lemma client_step_trace:
  assumes "client_step env eng (w, objs) op = (w1, objs1)"
  shows "\<exists>es. cuttInitialize \<notin> set es
     \<and> (if is_construction op
        then cuttInitialized w1 \<and> calls w1 = calls (call_once_cuttInitialize w) @ es
        else cuttInitialized w1 = cuttInitialized w \<and> calls w1 = calls w @ es
             \<and> (objs = [] \<longrightarrow> es = [] \<and> objs1 = []))"
proof (cases op)
  case (New r d p s h0 s0)
  with assms cuTT_ctor_world[of env r d p s h0 s0 w]
  have "w1 = call_once_cuttInitialize w"
    by (auto split: prod.splits sum.splits)
  then have "cuttInitialize \<notin> set []
     \<and> cuttInitialized w1 \<and> calls w1 = calls (call_once_cuttInitialize w) @ []"
    by (simp add: call_once_cases)
  with New show ?thesis by (metis is_construction.simps(1))
next
  case (NewMeasured r d p s idata odata a b h0 s0)
  obtain res w2 where c: "cuTT_ctor_measured env eng r d p s idata odata a b h0 s0 w = (res, w2)"
    by (cases "cuTT_ctor_measured env eng r d p s idata odata a b h0 s0 w")
  with assms NewMeasured have w12: "w1 = w2"
    by (auto split: sum.splits)
  from cuTT_ctor_measured_cases[OF c] have
    "\<exists>es. cuttInitialize \<notin> set es \<and> cuttInitialized w2
       \<and> calls w2 = calls (call_once_cuttInitialize w) @ es"
  proof
    assume "\<exists>e. res = Inl e \<and> w2 = call_once_cuttInitialize w"
    then have "cuttInitialize \<notin> set [] \<and> cuttInitialized w2
       \<and> calls w2 = calls (call_once_cuttInitialize w) @ []"
      by (auto simp: call_once_cases)
    then show ?thesis by (rule exI)
  next
    assume "\<exists>self sz st ip op h c. res = Inr self
          \<and> c = cuttPlanMeasure r d p sz st ip op a b
          \<and> w2 = (call_once_cuttInitialize w)
                   \<lparr>calls := calls (call_once_cuttInitialize w) @ [c]\<rparr>
          \<and> plan_result eng (calls (call_once_cuttInitialize w)) c = (h, initStatus self)
          \<and> planInitialized self"
    then obtain sz st ip op where
      "w2 = (call_once_cuttInitialize w)
              \<lparr>calls := calls (call_once_cuttInitialize w)
                 @ [cuttPlanMeasure r d p sz st ip op a b]\<rparr>"
      by blast
    then have "cuttInitialize \<notin> set [cuttPlanMeasure r d p sz st ip op a b]
       \<and> cuttInitialized w2
       \<and> calls w2 = calls (call_once_cuttInitialize w) @ [cuttPlanMeasure r d p sz st ip op a b]"
      by (simp add: call_once_cases)
    then show ?thesis by (rule exI)
  qed
  with NewMeasured w12 show ?thesis by simp
next
  case (Call i idata odata pa pb)
  show ?thesis
  proof (cases "i < length objs \<and> objs ! i \<noteq> None")
    case False
    with assms Call have "w1 = w" "objs1 = objs"
      by (auto split: if_splits option.splits)
    then have "cuttInitialize \<notin> set [] \<and> cuttInitialized w1 = cuttInitialized w
       \<and> calls w1 = calls w @ [] \<and> (objs = [] \<longrightarrow> [] = [] \<and> objs1 = [])"
      by simp
    then have "\<exists>es. cuttInitialize \<notin> set es \<and> cuttInitialized w1 = cuttInitialized w
       \<and> calls w1 = calls w @ es \<and> (objs = [] \<longrightarrow> es = [] \<and> objs1 = [])"
      by (rule exI)
    with Call show ?thesis by simp
  next
    case True
    then obtain self where self: "objs ! i = Some self" and i: "i < length objs" by auto
    obtain r self1 w2 where e: "execute env eng self idata odata pa pb w = (r, self1, w2)"
      by (cases "execute env eng self idata odata pa pb w")
    with assms Call self i have w12: "w1 = w2" by simp
    from execute_trace[OF e] obtain ps es where
      tr: "calls w2 = calls w @ ps @ es" "cuttInitialized w2 = cuttInitialized w"
        "ps = [] \<or> (\<exists>sz. ps = [cuttPlan (rank self) (dim self) (permutation self) sz (stream self)])"
        "es = [] \<or> (\<exists>i o' a b. es = [cuttExecute (plan self1) i o' a b])"
      by blast
    from tr(3,4) have "cuttInitialize \<notin> set (ps @ es)" by auto
    with tr(1,2) i have "cuttInitialize \<notin> set (ps @ es) \<and> cuttInitialized w2 = cuttInitialized w
       \<and> calls w2 = calls w @ (ps @ es) \<and> (objs = [] \<longrightarrow> ps @ es = [] \<and> objs1 = [])"
      by auto
    then have "\<exists>es. cuttInitialize \<notin> set es \<and> cuttInitialized w2 = cuttInitialized w
       \<and> calls w2 = calls w @ es \<and> (objs = [] \<longrightarrow> es = [] \<and> objs1 = [])"
      by (rule exI)
    with Call w12 show ?thesis by simp
  qed
next
  case (Delete i)
  show ?thesis
  proof (cases "i < length objs \<and> objs ! i \<noteq> None")
    case False
    with assms Delete have "w1 = w" "objs1 = objs"
      by (auto split: if_splits option.splits)
    then have "cuttInitialize \<notin> set [] \<and> cuttInitialized w1 = cuttInitialized w
       \<and> calls w1 = calls w @ [] \<and> (objs = [] \<longrightarrow> [] = [] \<and> objs1 = [])"
      by simp
    then have "\<exists>es. cuttInitialize \<notin> set es \<and> cuttInitialized w1 = cuttInitialized w
       \<and> calls w1 = calls w @ es \<and> (objs = [] \<longrightarrow> es = [] \<and> objs1 = [])"
      by (rule exI)
    with Delete show ?thesis by simp
  next
    case True
    then obtain self where self: "objs ! i = Some self" and i: "i < length objs" by auto
    with assms Delete have "w1 = cuTT_dtor self w" by simp
    with i have "cuttInitialize \<notin> set [cuttDestroy (plan self)]
       \<and> cuttInitialized w1 = cuttInitialized w
       \<and> calls w1 = calls w @ [cuttDestroy (plan self)]
       \<and> (objs = [] \<longrightarrow> [cuttDestroy (plan self)] = [] \<and> objs1 = [])"
      by (auto simp: cuTT_dtor_def)
    then have "\<exists>es. cuttInitialize \<notin> set es \<and> cuttInitialized w1 = cuttInitialized w
       \<and> calls w1 = calls w @ es \<and> (objs = [] \<longrightarrow> es = [] \<and> objs1 = [])"
      by (rule exI)
    with Delete show ?thesis by simp
  qed
qed

lemma client_run_snoc:
  "client_run env eng (ops @ [op]) = client_step env eng (client_run env eng ops) op"
  by (simp add: client_run_def)

lemma client_run_inv:
  assumes "client_run env eng ops = (w, objs)"
  shows "(cuttInitialized w \<longleftrightarrow> (\<exists>op\<in>set ops. is_construction op))
     \<and> (cuttInitialized w \<longrightarrow> (\<exists>rest. calls w = cuttInitialize # rest \<and> cuttInitialize \<notin> set rest))
     \<and> (\<not> cuttInitialized w \<longrightarrow> calls w = [] \<and> objs = [])"
  using assms
proof (induction ops arbitrary: w objs rule: rev_induct)
  case Nil
  then show ?case by (auto simp: client_run_def world0_def)
next
  case (snoc op ops)
  obtain w0 objs0 where r0: "client_run env eng ops = (w0, objs0)"
    by (cases "client_run env eng ops")
  from snoc.IH[OF r0] have
    ih1: "cuttInitialized w0 \<longleftrightarrow> (\<exists>op\<in>set ops. is_construction op)" and
    ih2: "cuttInitialized w0 \<Longrightarrow> \<exists>rest. calls w0 = cuttInitialize # rest \<and> cuttInitialize \<notin> set rest" and
    ih3: "\<not> cuttInitialized w0 \<Longrightarrow> calls w0 = [] \<and> objs0 = []"
    by blast+
  from snoc.prems r0 have st: "client_step env eng (w0, objs0) op = (w, objs)"
    by (simp add: client_run_snoc)
  from client_step_trace[OF st] obtain es where
    noinit: "cuttInitialize \<notin> set es" and
    es: "if is_construction op
        then cuttInitialized w \<and> calls w = calls (call_once_cuttInitialize w0) @ es
        else cuttInitialized w = cuttInitialized w0 \<and> calls w = calls w0 @ es
             \<and> (objs0 = [] \<longrightarrow> es = [] \<and> objs = [])"
    by blast
  show ?case
  proof (cases "is_construction op")
    case True
    with es have w: "cuttInitialized w" "calls w = calls (call_once_cuttInitialize w0) @ es"
      by simp_all
    have "\<exists>rest. calls w = cuttInitialize # rest \<and> cuttInitialize \<notin> set rest"
    proof (cases "cuttInitialized w0")
      case True
      from ih2[OF True] obtain rest where
        "calls w0 = cuttInitialize # rest" "cuttInitialize \<notin> set rest" by blast
      with w(2) True noinit have "calls w = cuttInitialize # (rest @ es)
         \<and> cuttInitialize \<notin> set (rest @ es)"
        by (simp add: call_once_cases)
      then show ?thesis by (rule exI)
    next
      case False
      from ih3[OF False] w(2) False noinit have "calls w = cuttInitialize # es
         \<and> cuttInitialize \<notin> set es"
        by (simp add: call_once_cases)
      then show ?thesis by (rule exI)
    qed
    with w(1) True show ?thesis by auto
  next
    case False
    with es have w: "cuttInitialized w = cuttInitialized w0" "calls w = calls w0 @ es"
      "objs0 = [] \<Longrightarrow> es = [] \<and> objs = []"
      by simp_all
    have a: "cuttInitialized w \<longleftrightarrow> (\<exists>op\<in>set (ops @ [op]). is_construction op)"
      using False ih1 w(1) by auto
    have b: "\<exists>rest. calls w = cuttInitialize # rest \<and> cuttInitialize \<notin> set rest"
      if "cuttInitialized w"
    proof -
      from that w(1) ih2 obtain rest where
        "calls w0 = cuttInitialize # rest" "cuttInitialize \<notin> set rest" by blast
      with w(2) noinit have "calls w = cuttInitialize # (rest @ es)
         \<and> cuttInitialize \<notin> set (rest @ es)" by simp
      then show ?thesis by (rule exI)
    qed
    have c: "calls w = [] \<and> objs = []" if "\<not> cuttInitialized w"
      using that w ih3 by simp
    from a b c show ?thesis by blast
  qed
qed

lemmas ctor_simps = cuTT_ctor_def cuTT_ctor_measured_def call_once_cuttInitialize_def
  stream_of_def cuTT_dtor_def client_run_def rebound_env_def ok_engine_def

subsection \<open>One initialisation per process\<close>

text \<open>
  C7. Whatever a client program does, with either constructor, in whatever runtime and
  with whatever engine: if it has run a constructor at all, the engine calls of the
  process begin with \<^verbatim>\<open>cuttInitialize\<close> and contain no second one, so the
  initialisation is made exactly once and precedes every planning call; if it has run no
  constructor, no engine call has been made. The operations of the client are taken one
  after the other, as the interpreter lock, which the binding never releases, orders
  them; \<^verbatim>\<open>std::call_once\<close> is one atomic step.
\<close>

theorem initialize_exactly_once:
  "case client_run env eng ops of
     (w, objs) \<Rightarrow>
       if \<exists>op\<in>set ops. is_construction op
       then \<exists>rest. calls w = cuttInitialize # rest \<and> cuttInitialize \<notin> set rest
       else calls w = []"
proof -
  obtain w objs where r: "client_run env eng ops = (w, objs)"
    by (cases "client_run env eng ops")
  from client_run_inv[OF r] r show ?thesis by auto
qed

theorem initialize_exactly_once_witness:
  "(\<exists>op\<in>set demo_ops. is_construction op)
   \<and> calls (fst (client_run rebound_env ok_engine demo_ops))
      = [cuttInitialize, cuttPlanMeasure 3 [4, 6, 8] [2, 0, 1] 4 0 100 200 0 0,
         cuttPlan 3 [4, 6, 8] [2, 0, 1] 4 0, cuttExecute 1 100 200 None None, cuttDestroy 1]
   \<and> (case client_run rebound_env ok_engine demo_ops of
        (w, objs) \<Rightarrow>
          if \<exists>op\<in>set demo_ops. is_construction op
          then \<exists>rest. calls w = cuttInitialize # rest \<and> cuttInitialize \<notin> set rest
          else calls w = [])"
proof -
  have h1: "\<exists>op\<in>set demo_ops. is_construction op"
    by (simp add: demo_ops_def)
  have h2: "calls (fst (client_run rebound_env ok_engine demo_ops))
      = [cuttInitialize, cuttPlanMeasure 3 [4, 6, 8] [2, 0, 1] 4 0 100 200 0 0,
         cuttPlan 3 [4, 6, 8] [2, 0, 1] 4 0, cuttExecute 1 100 200 None None, cuttDestroy 1]"
    by (simp add: demo_ops_def ctor_simps env_simps)
  note t = initialize_exactly_once[where env = rebound_env and eng = ok_engine and ops = demo_ops]
  show ?thesis by (intro conjI h1 h2 t)
qed

subsection \<open>The first constructor\<close>




subsection \<open>The destructor\<close>

lemma cuTT_dtor_always_destroys:
  "calls (cuTT_dtor self w) = calls w @ [cuttDestroy (plan self)]"
  by (simp add: cuTT_dtor_def)

text \<open>
  C2. The claim is that destroying an object that was never resolved makes no engine
  destroy call. The destructor calls \<^verbatim>\<open>cuttDestroy(plan)\<close> without looking at
  \<open>planInitialized\<close>: a client that constructs an object and destroys it at once has
  made the engine calls \<^verbatim>\<open>cuttInitialize\<close> and \<^verbatim>\<open>cuttDestroy\<close>, the latter on
  whatever the uninitialised member \<open>plan\<close> held (here 0).
\<close>

theorem cuTT_dtor_destroys_unresolved:
  "client_run pycuda_env ok_engine [New 3 [4, 6, 8] [2, 0, 1] PyNone 0 CUTT_SUCCESS, Delete 0]
     = (\<lparr>cuttInitialized = True, calls = [cuttInitialize, cuttDestroy 0]\<rparr>, [None])"
  by (simp add: ctor_simps env_simps)

subsection \<open>The second constructor\<close>

lemma cuTT_ctor_measured_module:
  assumes "pycuda_gpuarray env = Some PyModule"
  shows "\<exists>e. cuTT_ctor_measured env eng r d p s idata odata alpha beta h0 s0 w
            = (Inl e, call_once_cuttInitialize w)"
  using assms
  by (simp add: cuTT_ctor_measured_def Let_def attr_gpuarray_def getattr_def check_gpuarray_def
      split: sum.splits)

lemma cuTT_ctor_measured_pycuda:
  "cuTT_ctor_measured pycuda_env eng r d p s idata odata alpha beta h0 s0 w
     = (Inl (error_already_set TypeError), call_once_cuttInitialize w)"
  by (simp add: cuTT_ctor_measured_def Let_def attr_gpuarray_def getattr_def check_gpuarray_def
      import_pycuda_def attr_driver_Stream_def pycuda_env_def)


end
